theory Spec2Isabelle
  imports Complex_Main "HOL-Library.Sublist" "HOL-Library.Multiset" "HOL-Library.AList"
begin

section \<open>Python values and exceptions\<close>

text \<open>
  Both scripts handle the values that \<^verbatim>\<open>json.loads\<close> returns and that they put into
  command parameters: \<^verbatim>\<open>None\<close>, booleans, integers, floats, strings, lists and
  dictionaries with string keys. A dictionary is an association list read with
  \<open>map_of\<close>. A float carries its exact rational value; rounding is not modelled and no
  property below depends on the value of a float.
\<close>

datatype pyval =
    PNone
  | PBool bool
  | PInt int
  | PFloat rat
  | PStr string
  | PList "pyval list"
  | PDict "(string \<times> pyval) list"

text \<open>
  The exceptions that can arise in the two scripts. \<open>OSError\<close> stands for the
  connection errors of the socket module other than a timeout (connection refused,
  connection reset, broken pipe); \<open>SocketTimeout\<close> is \<^verbatim>\<open>socket.timeout\<close>.
\<close>

datatype py_error =
    IndexError
  | KeyError
  | TypeError
  | AttributeError
  | JSONDecodeError
  | UnicodeDecodeError
  | UnboundLocalError
  | SocketTimeout
  | OSError

text \<open>Truth value of a Python value, as \<^verbatim>\<open>if x\<close> and \<^verbatim>\<open>not x\<close> read it.\<close>

fun truthy :: "pyval \<Rightarrow> bool" where
  "truthy PNone = False"
| "truthy (PBool b) = b"
| "truthy (PInt n) = (n \<noteq> 0)"
| "truthy (PFloat r) = (r \<noteq> 0)"
| "truthy (PStr s) = (s \<noteq> [])"
| "truthy (PList xs) = (xs \<noteq> [])"
| "truthy (PDict kvs) = (kvs \<noteq> [])"

text \<open>\<^verbatim>\<open>x.get(k, d)\<close>: only a dictionary has the method.\<close>

fun py_get :: "pyval \<Rightarrow> string \<Rightarrow> pyval \<Rightarrow> py_error + pyval" where
  "py_get (PDict kvs) k d = Inr (case map_of kvs k of None \<Rightarrow> d | Some v \<Rightarrow> v)"
| "py_get _ k d = Inl AttributeError"

text \<open>The number a value stands for in arithmetic and comparisons (\<^verbatim>\<open>bool\<close> is an \<^verbatim>\<open>int\<close>).\<close>

fun py_num :: "pyval \<Rightarrow> rat option" where
  "py_num (PBool b) = Some (if b then 1 else 0)"
| "py_num (PInt n) = Some (of_int n)"
| "py_num (PFloat r) = Some r"
| "py_num _ = None"

text \<open>\<^verbatim>\<open>x >= n\<close> for an integer \<open>n\<close>: a \<^verbatim>\<open>TypeError\<close> unless \<open>x\<close> is a number.\<close>

definition py_ge_int :: "pyval \<Rightarrow> int \<Rightarrow> py_error + bool" where
  "py_ge_int x n = (case py_num x of None \<Rightarrow> Inl TypeError | Some r \<Rightarrow> Inr (of_int n \<le> r))"

subsection \<open>Operations used by the test harness\<close>

text \<open>\<^verbatim>\<open>x.get(k1, d1).get(k2, d2)\<close>.\<close>

definition py_get2 :: "pyval \<Rightarrow> string \<Rightarrow> pyval \<Rightarrow> string \<Rightarrow> pyval \<Rightarrow> py_error + pyval" where
  "py_get2 x k1 d1 k2 d2 = (case py_get x k1 d1 of Inl e \<Rightarrow> Inl e | Inr y \<Rightarrow> py_get y k2 d2)"

fun is_substr :: "string \<Rightarrow> string \<Rightarrow> bool" where
  "is_substr k [] = (k = [])"
| "is_substr k (c # cs) = (prefix k (c # cs) \<or> is_substr k cs)"

text \<open>
  \<^verbatim>\<open>k in x\<close> for a string \<open>k\<close>: a key of a dictionary, an element of a list, a
  substring of a string; the other values are not iterable.
\<close>

fun py_in_str :: "string \<Rightarrow> pyval \<Rightarrow> py_error + bool" where
  "py_in_str k (PDict kvs) = Inr (map_of kvs k \<noteq> None)"
| "py_in_str k (PList xs) = Inr (PStr k \<in> set xs)"
| "py_in_str k (PStr s) = Inr (is_substr k s)"
| "py_in_str k _ = Inl TypeError"

text \<open>\<^verbatim>\<open>x == r\<close> for a number \<open>r\<close> (\<^verbatim>\<open>True\<close> is 1).\<close>

definition py_eq_num :: "pyval \<Rightarrow> rat \<Rightarrow> bool" where
  "py_eq_num x r = (py_num x = Some r)"

text \<open>\<^verbatim>\<open>x > n\<close> for an integer \<open>n\<close>.\<close>

definition py_gt_int :: "pyval \<Rightarrow> int \<Rightarrow> py_error + bool" where
  "py_gt_int x n = (case py_num x of None \<Rightarrow> Inl TypeError | Some r \<Rightarrow> Inr (of_int n < r))"

fun py_len :: "pyval \<Rightarrow> py_error + nat" where
  "py_len (PStr s) = Inr (length s)"
| "py_len (PList xs) = Inr (length xs)"
| "py_len (PDict kvs) = Inr (length (remdups (map fst kvs)))"
| "py_len _ = Inl TypeError"

text \<open>
  The position that the index \<open>i\<close> denotes in a sequence of \<open>len\<close> items: a negative
  index counts from the end, and an index outside \<open>-len .. len - 1\<close> denotes none.
\<close>

definition py_index :: "nat \<Rightarrow> int \<Rightarrow> nat option" where
  "py_index len i =
     (if 0 \<le> i \<and> i < int len then Some (nat i)
      else if i < 0 \<and> - int len \<le> i then Some (nat (int len + i))
      else None)"

text \<open>\<^verbatim>\<open>x[i]\<close> for an integer \<open>i\<close>; the keys of a dictionary read from JSON are strings.\<close>

fun py_item_int :: "pyval \<Rightarrow> int \<Rightarrow> py_error + pyval" where
  "py_item_int (PList xs) i =
     (case py_index (length xs) i of None \<Rightarrow> Inl IndexError | Some k \<Rightarrow> Inr (xs ! k))"
| "py_item_int (PStr s) i =
     (case py_index (length s) i of None \<Rightarrow> Inl IndexError | Some k \<Rightarrow> Inr (PStr [s ! k]))"
| "py_item_int (PDict kvs) i = Inl KeyError"
| "py_item_int _ i = Inl TypeError"

text \<open>\<^verbatim>\<open>x[k]\<close> for a string \<open>k\<close>.\<close>

fun py_item_str :: "pyval \<Rightarrow> string \<Rightarrow> py_error + pyval" where
  "py_item_str (PDict kvs) k = (case map_of kvs k of None \<Rightarrow> Inl KeyError | Some v \<Rightarrow> Inr v)"
| "py_item_str _ k = Inl TypeError"

text \<open>The integer behind an \<^verbatim>\<open>int\<close> or a \<^verbatim>\<open>bool\<close>.\<close>

fun py_int :: "pyval \<Rightarrow> int option" where
  "py_int (PBool b) = Some (if b then 1 else 0)"
| "py_int (PInt n) = Some n"
| "py_int _ = None"

text \<open>\<^verbatim>\<open>x + n\<close> for an integer \<open>n\<close>, \<^verbatim>\<open>x + r\<close> for a float \<open>r\<close>, and \<^verbatim>\<open>x - y\<close>.\<close>

definition py_add_int :: "pyval \<Rightarrow> int \<Rightarrow> py_error + pyval" where
  "py_add_int x n =
     (case py_int x of
        Some m \<Rightarrow> Inr (PInt (m + n))
      | None \<Rightarrow> (case py_num x of Some r \<Rightarrow> Inr (PFloat (r + of_int n)) | None \<Rightarrow> Inl TypeError))"

definition py_add_float :: "pyval \<Rightarrow> rat \<Rightarrow> py_error + pyval" where
  "py_add_float x r = (case py_num x of Some a \<Rightarrow> Inr (PFloat (a + r)) | None \<Rightarrow> Inl TypeError)"

definition py_sub :: "pyval \<Rightarrow> pyval \<Rightarrow> py_error + pyval" where
  "py_sub x y =
     (case (py_int x, py_int y) of
        (Some a, Some b) \<Rightarrow> Inr (PInt (a - b))
      | _ \<Rightarrow> (case (py_num x, py_num y) of
                (Some a, Some b) \<Rightarrow> Inr (PFloat (a - b))
              | _ \<Rightarrow> Inl TypeError))"

text \<open>\<^verbatim>\<open>range(x)\<close>: only an integer will do.\<close>

definition py_range :: "pyval \<Rightarrow> py_error + int list" where
  "py_range x = (case py_int x of Some n \<Rightarrow> Inr (map int [0..<nat n]) | None \<Rightarrow> Inl TypeError)"

text \<open>The decimal digits of an integer, for the f-string that names a test.\<close>

fun str_nat :: "nat \<Rightarrow> string" where
  "str_nat n = (if n < 10 then [''0123456789'' ! n] else str_nat (n div 10) @ [''0123456789'' ! (n mod 10)])"

definition str_int :: "int \<Rightarrow> string" where
  "str_int i = (if i < 0 then CHR ''-'' # str_nat (nat (- i)) else str_nat (nat i))"

text \<open>
  \<^verbatim>\<open>str(x)\<close> inside an f-string. The harness formats only a track index, an integer;
  the text of a float or of a container is not modelled.
\<close>

fun py_str :: "pyval \<Rightarrow> string" where
  "py_str PNone = ''None''"
| "py_str (PBool b) = (if b then ''True'' else ''False'')"
| "py_str (PInt n) = str_int n"
| "py_str (PStr s) = s"
| "py_str _ = ''?''"

text \<open>
  \<^verbatim>\<open>str(e)\<close> for a caught exception. The text depends on the interpreter and on the
  value at fault; the name of the class stands in for it, and no property depends on it.
\<close>

fun exc_str :: "py_error \<Rightarrow> string" where
  "exc_str IndexError = ''IndexError''"
| "exc_str KeyError = ''KeyError''"
| "exc_str TypeError = ''TypeError''"
| "exc_str AttributeError = ''AttributeError''"
| "exc_str JSONDecodeError = ''JSONDecodeError''"
| "exc_str UnicodeDecodeError = ''UnicodeDecodeError''"
| "exc_str UnboundLocalError = ''UnboundLocalError''"
| "exc_str SocketTimeout = ''timed out''"
| "exc_str OSError = ''OSError''"

section \<open>The command client\<close>

text \<open>
  Bytes are a \<open>string\<close>. What \<^verbatim>\<open>json.loads(buffer.decode())\<close> does with a buffer of
  bytes: it returns a value, raises \<^verbatim>\<open>json.JSONDecodeError\<close>, or raises
  \<^verbatim>\<open>UnicodeDecodeError\<close> when the bytes are not UTF-8. The library function is a
  parameter \<open>loads\<close> of the read loops.
\<close>

datatype decode_result = Parsed pyval | JSONError | UnicodeError

text \<open>
  What the socket does during one call: the exception raised by \<^verbatim>\<open>connect\<close> or
  \<^verbatim>\<open>sendall\<close>, if any, and then the outcomes of the successive \<^verbatim>\<open>recv\<close> calls: bytes
  (none when the peer has closed), \<^verbatim>\<open>socket.timeout\<close>, or another error of the
  connection. After the listed outcomes the peer has closed.
\<close>

datatype recv_event = Chunk string | Timeout | Failure

record connection =
  setup_error :: "py_error option"
  recvs :: "recv_event list"

text \<open>\<^verbatim>\<open>json.loads(b''.join(chunks).decode())\<close> after the loop of the player.\<close>

definition final_parse :: "(string \<Rightarrow> decode_result) \<Rightarrow> string list \<Rightarrow> py_error + pyval" where
  "final_parse loads chunks =
     (case loads (concat chunks) of
        Parsed result \<Rightarrow> Inr result
      | JSONError \<Rightarrow> Inl JSONDecodeError
      | UnicodeError \<Rightarrow> Inl UnicodeDecodeError)"

text \<open>
  The read loop of the player's \<^verbatim>\<open>send_command\<close>. Only \<^verbatim>\<open>JSONDecodeError\<close> is caught
  around the parse and only \<^verbatim>\<open>socket.timeout\<close> around the loop body; an empty \<^verbatim>\<open>recv\<close>
  and a timeout leave the loop, and the buffer is parsed once more.
\<close>

fun read_response :: "(string \<Rightarrow> decode_result) \<Rightarrow> recv_event list \<Rightarrow> string list \<Rightarrow> py_error + pyval" where
  "read_response loads (Chunk chunk # evs) chunks =
     (if chunk = [] then final_parse loads chunks
      else
        (case loads (concat (chunks @ [chunk])) of
           Parsed result \<Rightarrow> Inr result
         | JSONError \<Rightarrow> read_response loads evs (chunks @ [chunk])
         | UnicodeError \<Rightarrow> Inl UnicodeDecodeError))"
| "read_response loads (Timeout # evs) chunks = final_parse loads chunks"
| "read_response loads (Failure # evs) chunks = Inl OSError"
| "read_response loads [] chunks = final_parse loads chunks"

text \<open>
  The player's \<^verbatim>\<open>send_command\<close> on a connection: nothing is caught around \<^verbatim>\<open>connect\<close>
  and \<^verbatim>\<open>sendall\<close>.
\<close>

definition send_command :: "(string \<Rightarrow> decode_result) \<Rightarrow> connection \<Rightarrow> py_error + pyval" where
  "send_command loads conn =
     (case setup_error conn of
        Some e \<Rightarrow> Inl e
      | None \<Rightarrow> read_response loads (recvs conn) [])"

text \<open>
  The read loop of the harness's \<^verbatim>\<open>send_command\<close>. It assigns \<^verbatim>\<open>result\<close> only when
  a parse succeeds, so leaving the loop on an empty \<^verbatim>\<open>recv\<close> reaches \<^verbatim>\<open>return result\<close>
  with the variable unbound. A timeout is not caught in the loop.
\<close>

fun tester_read :: "(string \<Rightarrow> decode_result) \<Rightarrow> recv_event list \<Rightarrow> string \<Rightarrow> py_error + pyval" where
  "tester_read loads (Chunk chunk # evs) response =
     (if chunk = [] then Inl UnboundLocalError
      else
        (case loads (response @ chunk) of
           Parsed result \<Rightarrow> Inr result
         | JSONError \<Rightarrow> tester_read loads evs (response @ chunk)
         | UnicodeError \<Rightarrow> Inl UnicodeDecodeError))"
| "tester_read loads (Timeout # evs) response = Inl SocketTimeout"
| "tester_read loads (Failure # evs) response = Inl OSError"
| "tester_read loads [] response = Inl UnboundLocalError"

text \<open>The body of the \<^verbatim>\<open>try\<close> of the harness's \<^verbatim>\<open>send_command\<close>.\<close>

definition tester_try :: "(string \<Rightarrow> decode_result) \<Rightarrow> connection \<Rightarrow> py_error + pyval" where
  "tester_try loads conn =
     (case setup_error conn of
        Some e \<Rightarrow> Inl e
      | None \<Rightarrow> tester_read loads (recvs conn) [])"

text \<open>
  The harness's \<^verbatim>\<open>send_command\<close> on a connection, with its
  \<^verbatim>\<open>except Exception as e: return {"status": "error", "message": str(e)}\<close>.
\<close>

definition error_response :: "py_error \<Rightarrow> pyval" where
  "error_response e = PDict [(''status'', PStr ''error''), (''message'', PStr (exc_str e))]"

definition tester_send_command :: "(string \<Rightarrow> decode_result) \<Rightarrow> connection \<Rightarrow> pyval" where
  "tester_send_command loads conn =
     (case tester_try loads conn of
        Inl e \<Rightarrow> error_response e
      | Inr result \<Rightarrow> result)"

text \<open>
  The chunks arrive one after the other, each with at least one byte, and none of the
  buffers that accumulate along the way is a JSON text yet.
\<close>

definition unparsed :: "(string \<Rightarrow> decode_result) \<Rightarrow> string list \<Rightarrow> bool" where
  "unparsed loads cs =
     (list_all (\<lambda>c. c \<noteq> []) cs \<and>
      list_all (\<lambda>n. loads (concat (take n cs)) = JSONError) [1..<Suc (length cs)])"

subsection \<open>A concrete \<open>json.loads\<close>\<close>

text \<open>
  The read loops above take \<open>loads\<close> as a parameter, and what is proved of them holds for
  every \<open>loads\<close>. For runs on given bytes, \<open>json_loads\<close> follows
  \<^verbatim>\<open>json.loads(b.decode())\<close> on the texts built from \<^verbatim>\<open>null\<close>, \<^verbatim>\<open>true\<close>, \<^verbatim>\<open>false\<close>,
  numbers, strings with the two-character escapes, lists and dictionaries, in UTF-8 and
  with the white space of JSON. It refuses the escape \<^verbatim>\<open>\uXXXX\<close> and the constants
  \<^verbatim>\<open>NaN\<close>, \<^verbatim>\<open>Infinity\<close> and \<^verbatim>\<open>-Infinity\<close>, which \<^verbatim>\<open>json.loads\<close> accepts, so it is used
  on no text that has them. A string is kept as its UTF-8 bytes.
\<close>

definition is_ws :: "char \<Rightarrow> bool" where
  "is_ws c = (c = CHR '' '' \<or> c = CHR 0x09 \<or> c = CHR 0x0A \<or> c = CHR 0x0D)"

definition skip_ws :: "string \<Rightarrow> string" where
  "skip_ws s = dropWhile is_ws s"

definition is_digit :: "char \<Rightarrow> bool" where
  "is_digit c = (c \<in> set ''0123456789'')"

definition digit_val :: "char \<Rightarrow> nat" where
  "digit_val c = of_char c - 48"

definition digits_val :: "string \<Rightarrow> nat" where
  "digits_val ds = foldl (\<lambda>n c. 10 * n + digit_val c) 0 ds"

text \<open>
  A number, by \<^verbatim>\<open>(-?(?:0|[1-9]\d*))(\.\d+)?([eE][-+]?\d+)?\<close>: an \<^verbatim>\<open>int\<close> when it has neither
  fraction nor exponent, a \<^verbatim>\<open>float\<close> otherwise.
\<close>

definition lex_number :: "string \<Rightarrow> (pyval \<times> string) option" where
  "lex_number s =
     (let neg = (s \<noteq> [] \<and> hd s = CHR ''-'');
          s1 = (if neg then tl s else s);
          ds = (if s1 \<noteq> [] \<and> hd s1 = CHR ''0'' then ''0'' else takeWhile is_digit s1);
          s2 = drop (length ds) s1;
          fs = (if s2 \<noteq> [] \<and> hd s2 = CHR ''.'' then takeWhile is_digit (tl s2) else []);
          s3 = (if fs = [] then s2 else drop (Suc (length fs)) s2);
          has_e = (s3 \<noteq> [] \<and> (hd s3 = CHR ''e'' \<or> hd s3 = CHR ''E''));
          s4 = (if has_e then tl s3 else s3);
          eneg = (has_e \<and> s4 \<noteq> [] \<and> hd s4 = CHR ''-'');
          s5 = (if has_e \<and> s4 \<noteq> [] \<and> (hd s4 = CHR ''-'' \<or> hd s4 = CHR ''+'') then tl s4 else s4);
          es = (if has_e then takeWhile is_digit s5 else []);
          rest = (if es = [] then s3 else drop (length es) s5);
          sign = (if neg then - 1 else 1)
      in if ds = [] then None
         else if fs = [] \<and> es = [] then Some (PInt (sign * int (digits_val ds)), rest)
         else
           Some (PFloat (of_int sign *
                   (of_nat (digits_val ds) + of_nat (digits_val fs) / 10 ^ length fs) *
                   (if eneg then 1 / 10 ^ digits_val es else 10 ^ digits_val es)),
                 rest))"

text \<open>
  A string after its opening quote. Of the escapes, \<^verbatim>\<open>\uXXXX\<close> is left out; a raw control
  character is refused, as \<^verbatim>\<open>json.loads\<close> does by default.
\<close>

definition unescape :: "char \<Rightarrow> char option" where
  "unescape e =
     (if e = CHR ''\"'' \<or> e = CHR 0x5C \<or> e = CHR ''/'' then Some e
      else if e = CHR ''b'' then Some (CHR 0x08)
      else if e = CHR ''f'' then Some (CHR 0x0C)
      else if e = CHR ''n'' then Some (CHR 0x0A)
      else if e = CHR ''r'' then Some (CHR 0x0D)
      else if e = CHR ''t'' then Some (CHR 0x09)
      else None)"

fun lex_string :: "string \<Rightarrow> string \<Rightarrow> (string \<times> string) option" where
  "lex_string [] acc = None"
| "lex_string (c # cs) acc =
     (if c = CHR ''\"'' then Some (rev acc, cs)
      else if c = CHR 0x5C then
        (case cs of
           [] \<Rightarrow> None
         | e # cs' \<Rightarrow> (case unescape e of None \<Rightarrow> None | Some ch \<Rightarrow> lex_string cs' (ch # acc)))
      else if (of_char c :: nat) < 32 then None
      else lex_string cs (c # acc))"

text \<open>
  Values, the elements of a list after its first position and the members of a
  dictionary. The first argument bounds the depth of the calls; a text of \<open>n\<close> bytes
  needs at most \<open>n + 1\<close>.
\<close>

fun parse_value :: "nat \<Rightarrow> string \<Rightarrow> (pyval \<times> string) option"
  and parse_elements :: "nat \<Rightarrow> string \<Rightarrow> pyval list \<Rightarrow> (pyval \<times> string) option"
  and parse_members :: "nat \<Rightarrow> string \<Rightarrow> (string \<times> pyval) list \<Rightarrow> (pyval \<times> string) option" where
  "parse_value 0 s = None"
| "parse_value (Suc n) s =
     (case skip_ws s of
        [] \<Rightarrow> None
      | c # cs \<Rightarrow>
          if c = CHR ''\"'' then
            (case lex_string cs [] of None \<Rightarrow> None | Some (str, r) \<Rightarrow> Some (PStr str, r))
          else if c = CHR ''['' then
            (if skip_ws cs \<noteq> [] \<and> hd (skip_ws cs) = CHR '']'' then Some (PList [], tl (skip_ws cs))
             else parse_elements n cs [])
          else if c = CHR ''{'' then
            (if skip_ws cs \<noteq> [] \<and> hd (skip_ws cs) = CHR ''}'' then Some (PDict [], tl (skip_ws cs))
             else parse_members n cs [])
          else if prefix ''null'' (c # cs) then Some (PNone, drop 4 (c # cs))
          else if prefix ''true'' (c # cs) then Some (PBool True, drop 4 (c # cs))
          else if prefix ''false'' (c # cs) then Some (PBool False, drop 5 (c # cs))
          else lex_number (c # cs))"
| "parse_elements 0 s acc = None"
| "parse_elements (Suc n) s acc =
     (case parse_value n s of
        None \<Rightarrow> None
      | Some (v, r) \<Rightarrow>
          (case skip_ws r of
             [] \<Rightarrow> None
           | c # cs \<Rightarrow>
               if c = CHR '','' then parse_elements n cs (acc @ [v])
               else if c = CHR '']'' then Some (PList (acc @ [v]), cs)
               else None))"
| "parse_members 0 s acc = None"
| "parse_members (Suc n) s acc =
     (case skip_ws s of
        [] \<Rightarrow> None
      | c # cs \<Rightarrow>
          if c = CHR ''\"'' then
            (case lex_string cs [] of
               None \<Rightarrow> None
             | Some (k, r) \<Rightarrow>
                 (case skip_ws r of
                    [] \<Rightarrow> None
                  | d # ds \<Rightarrow>
                      if d = CHR '':'' then
                        (case parse_value n ds of
                           None \<Rightarrow> None
                         | Some (v, r2) \<Rightarrow>
                             (case skip_ws r2 of
                                [] \<Rightarrow> None
                              | e # es \<Rightarrow>
                                  if e = CHR '','' then parse_members n es (AList.update k v acc)
                                  else if e = CHR ''}'' then Some (PDict (AList.update k v acc), es)
                                  else None))
                      else None))
          else None)"

text \<open>Whether bytes are UTF-8, as the strict decoder of \<^verbatim>\<open>bytes.decode\<close> judges.\<close>

definition byte_in :: "char \<Rightarrow> nat \<Rightarrow> nat \<Rightarrow> bool" where
  "byte_in c lo hi = (lo \<le> of_char c \<and> (of_char c :: nat) \<le> hi)"

fun utf8_valid :: "string \<Rightarrow> bool" where
  "utf8_valid [] = True"
| "utf8_valid (c # cs) =
     (if byte_in c 0 0x7F then utf8_valid cs
      else if byte_in c 0xC2 0xDF then
        (case cs of c1 # r \<Rightarrow> byte_in c1 0x80 0xBF \<and> utf8_valid r | _ \<Rightarrow> False)
      else if byte_in c 0xE0 0xEF then
        (case cs of
           c1 # c2 # r \<Rightarrow>
             byte_in c1 (if c = CHR 0xE0 then 0xA0 else 0x80) (if c = CHR 0xED then 0x9F else 0xBF) \<and>
             byte_in c2 0x80 0xBF \<and> utf8_valid r
         | _ \<Rightarrow> False)
      else if byte_in c 0xF0 0xF4 then
        (case cs of
           c1 # c2 # c3 # r \<Rightarrow>
             byte_in c1 (if c = CHR 0xF0 then 0x90 else 0x80) (if c = CHR 0xF4 then 0x8F else 0xBF) \<and>
             byte_in c2 0x80 0xBF \<and> byte_in c3 0x80 0xBF \<and> utf8_valid r
         | _ \<Rightarrow> False)
      else False)"

definition json_loads :: "string \<Rightarrow> decode_result" where
  "json_loads b =
     (if \<not> utf8_valid b then UnicodeError
      else
        (case parse_value (Suc (length b)) b of
           None \<Rightarrow> JSONError
         | Some (v, r) \<Rightarrow> if skip_ws r = [] then Parsed v else JSONError))"

section \<open>The arrangement player\<close>

text \<open>
  \<^verbatim>\<open>send_command(cmd_type, params)\<close> either returns the parsed response or raises. The
  scheduling functions reach the DAW only through it, so they take it as a parameter
  \<open>send\<close>: from the state of the world before the call, the command type and the
  \<^verbatim>\<open>params\<close> argument (\<open>None\<close> when it is left out) to the outcome and the state after.
  The socket exchange behind it is modelled in the section on the command client. Every
  call is recorded with its outcome. Printing, \<^verbatim>\<open>input\<close> and \<^verbatim>\<open>time.sleep\<close> are not
  modelled, nor is the asynchronous \<^verbatim>\<open>KeyboardInterrupt\<close>.
\<close>

type_synonym 'st sender = "'st \<Rightarrow> string \<Rightarrow> pyval option \<Rightarrow> (py_error + pyval) \<times> 'st"

type_synonym call = "string \<times> pyval option \<times> (py_error + pyval)"

type_synonym 'st world = "'st \<times> call list"

definition invoke :: "'st sender \<Rightarrow> string \<Rightarrow> pyval option \<Rightarrow> 'st world \<Rightarrow> (py_error + pyval) \<times> 'st world" where
  "invoke send cmd_type params w =
     (case send (fst w) cmd_type params of
        (out, st') \<Rightarrow> (out, (st', snd w @ [(cmd_type, params, out)])))"

definition get_position :: "'st sender \<Rightarrow> 'st world \<Rightarrow> (py_error + pyval) \<times> 'st world" where
  "get_position send w =
     (case invoke send ''get_song_position'' None w of
        (Inl e, w') \<Rightarrow> (Inl e, w')
      | (Inr result, w') \<Rightarrow> (py_get result ''result'' result, w'))"

definition fire_scene :: "'st sender \<Rightarrow> int \<Rightarrow> 'st world \<Rightarrow> (py_error + pyval) \<times> 'st world" where
  "fire_scene send index w =
     (case invoke send ''fire_scene'' (Some (PDict [(''scene_index'', PInt index)])) w of
        (Inl e, w') \<Rightarrow> (Inl e, w')
      | (Inr result, w') \<Rightarrow> (py_get result ''result'' result, w'))"

definition start_playback :: "'st sender \<Rightarrow> 'st world \<Rightarrow> (py_error + pyval) \<times> 'st world" where
  "start_playback send w = invoke send ''start_playback'' None w"

definition stop_playback :: "'st sender \<Rightarrow> 'st world \<Rightarrow> (py_error + pyval) \<times> 'st world" where
  "stop_playback send w = invoke send ''stop_playback'' None w"

text \<open>A cue is \<^verbatim>\<open>(bar_number, scene_index, name)\<close>.\<close>

type_synonym cue = "int \<times> int \<times> string"

text \<open>
  How \<^verbatim>\<open>run_arrangement\<close> ends: the \<^verbatim>\<open>while\<close> condition became false (\<open>Complete\<close>),
  the loop was left by \<^verbatim>\<open>break\<close> because playback had stopped (\<open>Stopped\<close>), or an
  exception left the function (\<open>Raised\<close>). The first two are normal returns.
\<close>

datatype exit = Complete | Stopped | Raised py_error

text \<open>
  The \<^verbatim>\<open>while current_index < len(arrangement)\<close> loop. It runs for as long as the DAW
  keeps playing without reaching the next cue, so the model counts polls: \<open>fuel\<close> bounds
  the number of position queries, and the exit \<open>None\<close> says that the loop was still
  running when they were used up. The calls made so far are returned in every case.
\<close>

fun poll_loop :: "nat \<Rightarrow> 'st sender \<Rightarrow> cue list \<Rightarrow> nat \<Rightarrow> 'st world \<Rightarrow> exit option \<times> 'st world" where
  "poll_loop 0 send arrangement current_index w =
     (if current_index < length arrangement then (None, w) else (Some Complete, w))"
| "poll_loop (Suc fuel) send arrangement current_index w =
     (if current_index < length arrangement then
        (case get_position send w of
           (Inl e, w1) \<Rightarrow> (Some (Raised e), w1)
         | (Inr pos, w1) \<Rightarrow>
            (case py_get pos ''current_bar'' (PInt 0) of
               Inl e \<Rightarrow> (Some (Raised e), w1)
             | Inr current_bar \<Rightarrow>
                (case py_get pos ''is_playing'' (PBool False) of
                   Inl e \<Rightarrow> (Some (Raised e), w1)
                 | Inr is_playing \<Rightarrow>
                    if \<not> truthy is_playing then (Some Stopped, w1)
                    else
                      (case arrangement ! current_index of
                         (next_bar, next_scene, next_name) \<Rightarrow>
                           (case py_ge_int current_bar next_bar of
                              Inl e \<Rightarrow> (Some (Raised e), w1)
                            | Inr due \<Rightarrow>
                                if due then
                                  (case fire_scene send next_scene w1 of
                                     (Inl e, w2) \<Rightarrow> (Some (Raised e), w2)
                                   | (Inr r, w2) \<Rightarrow>
                                       poll_loop fuel send arrangement (current_index + 1) w2)
                                else poll_loop fuel send arrangement current_index w1)))))
      else (Some Complete, w))"

text \<open>
  \<^verbatim>\<open>run_arrangement\<close>: sort by bar number (\<^verbatim>\<open>sorted\<close> is stable, as \<open>sort_key\<close> is),
  start playback, fire the first cue, then poll. \<^verbatim>\<open>arrangement[0]\<close> raises
  \<^verbatim>\<open>IndexError\<close> on an empty list.
\<close>

definition run_arrangement :: "nat \<Rightarrow> 'st sender \<Rightarrow> cue list \<Rightarrow> 'st \<Rightarrow> exit option \<times> 'st world" where
  "run_arrangement fuel send arrangement0 st =
     (let arrangement = sort_key fst arrangement0 in
      case start_playback send (st, []) of
        (Inl e, w1) \<Rightarrow> (Some (Raised e), w1)
      | (Inr r0, w1) \<Rightarrow>
          (case arrangement of
             [] \<Rightarrow> (Some (Raised IndexError), w1)
           | (first_bar, first_scene, first_name) # rest \<Rightarrow>
               (case fire_scene send first_scene w1 of
                  (Inl e, w2) \<Rightarrow> (Some (Raised e), w2)
                | (Inr r, w2) \<Rightarrow> poll_loop fuel send arrangement 1 w2)))"

text \<open>The \<^verbatim>\<open>params\<close> of the \<^verbatim>\<open>fire_scene\<close> calls of a record of calls, in order.\<close>

definition fired_scenes :: "call list \<Rightarrow> pyval option list" where
  "fired_scenes calls = map (\<lambda>c. fst (snd c)) (filter (\<lambda>c. fst c = ''fire_scene'') calls)"

definition polls :: "call list \<Rightarrow> call list" where
  "polls calls = filter (\<lambda>c. fst c = ''get_song_position'') calls"

definition fire_params :: "cue \<Rightarrow> pyval option" where
  "fire_params c = Some (PDict [(''scene_index'', PInt (fst (snd c)))])"

text \<open>
  A simulated DAW driven by a position feed: the \<open>n\<close>-th position query is answered with
  bar and playing flag \<open>feed n\<close>, every other command with a plain success. Its state is
  the number of position queries answered so far.
\<close>

definition position_response :: "int \<times> bool \<Rightarrow> pyval" where
  "position_response p =
     PDict [(''status'', PStr ''success''),
            (''result'', PDict [(''current_bar'', PInt (fst p)), (''is_playing'', PBool (snd p))])]"

definition feed_send :: "(nat \<Rightarrow> int \<times> bool) \<Rightarrow> nat sender" where
  "feed_send feed n cmd_type params =
     (if cmd_type = ''get_song_position'' then (Inr (position_response (feed n)), Suc n)
      else (Inr (PDict [(''status'', PStr ''success''), (''result'', PDict [])]), n))"

text \<open>
  A recorded call is a position query whose answer makes the loop read
  \<^verbatim>\<open>is_playing\<close> as false.
\<close>

definition reports_stopped :: "call \<Rightarrow> bool" where
  "reports_stopped c =
     (case c of
        (cmd_type, params, Inr result) \<Rightarrow>
          cmd_type = ''get_song_position'' \<and>
          (case py_get result ''result'' result of
             Inr pos \<Rightarrow>
               (case py_get pos ''is_playing'' (PBool False) of
                  Inr v \<Rightarrow> \<not> truthy v
                | Inl e \<Rightarrow> False)
           | Inl e \<Rightarrow> False)
      | (cmd_type, params, Inl e) \<Rightarrow> False)"

text \<open>Two \<^verbatim>\<open>fire_scene\<close> calls follow each other directly somewhere in a record of calls.\<close>

fun adjacent_fires :: "call list \<Rightarrow> bool" where
  "adjacent_fires (a # b # cs) = ((fst a = ''fire_scene'' \<and> fst b = ''fire_scene'') \<or> adjacent_fires (b # cs))"
| "adjacent_fires cs = False"

section \<open>The test harness\<close>

text \<open>
  An entry of \<^verbatim>\<open>test_results\<close> is a dictionary with the keys \<^verbatim>\<open>name\<close>, \<^verbatim>\<open>status\<close> and,
  for a failure, \<^verbatim>\<open>error\<close>.
\<close>

record test_result =
  r_name :: string
  r_status :: string
  r_error :: "pyval option"

text \<open>The counters and the list of \<^verbatim>\<open>AbletonMCPTester\<close>; host and port are constants.\<close>

record tester =
  tests_passed :: nat
  tests_failed :: nat
  test_results :: "test_result list"

definition init_tester :: tester where
  "init_tester = \<lparr>tests_passed = 0, tests_failed = 0, test_results = []\<rparr>"

text \<open>
  The harness's own \<^verbatim>\<open>send_command\<close> catches every exception and returns a response in
  all cases, so here the parameter \<open>send\<close> yields a value and the state of the world after
  the call.
\<close>

type_synonym 'st hsender = "'st \<Rightarrow> string \<Rightarrow> pyval option \<Rightarrow> pyval \<times> 'st"

type_synonym 'st harness = "tester \<times> 'st"

definition record_failed :: "string \<Rightarrow> pyval \<Rightarrow> tester \<Rightarrow> tester" where
  "record_failed name err t =
     t\<lparr>tests_failed := tests_failed t + 1,
       test_results := test_results t @ [\<lparr>r_name = name, r_status = ''failed'', r_error = Some err\<rparr>]\<rparr>"

definition record_passed :: "string \<Rightarrow> tester \<Rightarrow> tester" where
  "record_passed name t =
     t\<lparr>tests_passed := tests_passed t + 1,
       test_results := test_results t @ [\<lparr>r_name = name, r_status = ''passed'', r_error = None\<rparr>]\<rparr>"

text \<open>
  \<^verbatim>\<open>AbletonMCPTester.test\<close>. The check function returns a truth value or raises; the
  cleanup function may assign variables of the enclosing function, whose values are the
  argument \<open>c\<close> and the second component of the result, or raise. Every \<open>Inl\<close> below is
  the \<^verbatim>\<open>except Exception\<close> branch.
\<close>

definition test ::
  "'st hsender \<Rightarrow> string \<Rightarrow> string \<Rightarrow> pyval option \<Rightarrow> (pyval \<Rightarrow> py_error + bool) option \<Rightarrow>
   (pyval \<Rightarrow> 'c \<Rightarrow> py_error + 'c) option \<Rightarrow> 'c \<Rightarrow> 'st harness \<Rightarrow> bool \<times> 'c \<times> 'st harness" where
  "test send name command params check_func cleanup_func c s =
     (case send (snd s) command params of
        (result, st') \<Rightarrow>
          (case py_get result ''status'' PNone of
             Inl e \<Rightarrow> (False, c, (record_failed name (PStr (exc_str e)) (fst s), st'))
           | Inr status \<Rightarrow>
               if status = PStr ''error'' then
                 (case py_get result ''message'' PNone of
                    Inl e \<Rightarrow> (False, c, (record_failed name (PStr (exc_str e)) (fst s), st'))
                  | Inr message \<Rightarrow> (False, c, (record_failed name message (fst s), st')))
               else
                 (case (case check_func of None \<Rightarrow> Inr True | Some chk \<Rightarrow> chk result) of
                    Inl e \<Rightarrow> (False, c, (record_failed name (PStr (exc_str e)) (fst s), st'))
                  | Inr ok \<Rightarrow>
                      if \<not> ok then
                        (False, c, (record_failed name (PStr ''Check function failed'') (fst s), st'))
                      else
                        (case cleanup_func of
                           None \<Rightarrow> (True, c, (record_passed name (fst s), st'))
                         | Some cleanup \<Rightarrow>
                             (case cleanup result c of
                                Inl e \<Rightarrow>
                                  (False, c,
                                   (record_failed name (PStr (exc_str e)) (record_passed name (fst s)), st'))
                              | Inr c' \<Rightarrow> (True, c', (record_passed name (fst s), st')))))))"

text \<open>A call \<^verbatim>\<open>self.test(...)\<close> without a cleanup function whose result is not used.\<close>

definition test_do ::
  "'st hsender \<Rightarrow> string \<Rightarrow> string \<Rightarrow> pyval option \<Rightarrow> (pyval \<Rightarrow> py_error + bool) option \<Rightarrow>
   'st harness \<Rightarrow> 'st harness" where
  "test_do send name command params check_func s =
     snd (snd (test send name command params check_func (None :: (pyval \<Rightarrow> unit \<Rightarrow> py_error + unit) option) () s))"

text \<open>The check functions of \<^verbatim>\<open>run_all_tests\<close>:
  \<^verbatim>\<open>lambda r: k in r.get('result', {})\<close> and
  \<^verbatim>\<open>lambda r: r.get('result', {}).get(k, d) == v\<close>.\<close>

definition check_in :: "string \<Rightarrow> pyval \<Rightarrow> py_error + bool" where
  "check_in k r = (case py_get r ''result'' (PDict []) of Inl e \<Rightarrow> Inl e | Inr x \<Rightarrow> py_in_str k x)"

definition check_eq :: "string \<Rightarrow> pyval \<Rightarrow> rat \<Rightarrow> pyval \<Rightarrow> py_error + bool" where
  "check_eq k d v r =
     (case py_get2 r ''result'' (PDict []) k d of Inl e \<Rightarrow> Inl e | Inr x \<Rightarrow> Inr (py_eq_num x v))"

text \<open>
  The cleanup functions \<^verbatim>\<open>store_midi_track\<close>, \<^verbatim>\<open>store_audio_track\<close>, \<^verbatim>\<open>store_dup_track\<close>
  and \<^verbatim>\<open>store_scene\<close> assign the response to a variable that starts as \<^verbatim>\<open>None\<close>, and
  \<^verbatim>\<open>x.get('result', {}).get(k, 0) if x else d\<close> reads the index back.
\<close>

definition store :: "pyval \<Rightarrow> pyval \<Rightarrow> py_error + pyval" where
  "store r c = Inr r"

definition stored_index :: "pyval \<Rightarrow> string \<Rightarrow> int \<Rightarrow> py_error + pyval" where
  "stored_index x k d =
     (if truthy x then py_get2 x ''result'' (PDict []) k (PInt 0) else Inr (PInt d))"

text \<open>
  \<^verbatim>\<open>run_all_tests\<close>, block by block as its comments divide it. A block yields the state
  after it and, where the code between its tests can raise, the exception that leaves
  \<^verbatim>\<open>run_all_tests\<close>. \<^verbatim>\<open>print_summary\<close> only prints.
\<close>

definition test_session_transport :: "'st hsender \<Rightarrow> 'st harness \<Rightarrow> 'st harness" where
  "test_session_transport send s0 =
     (let s = test_do send ''Get session info'' ''get_session_info'' None (Some (check_in ''tempo'')) s0;
          s = test_do send ''Get song position'' ''get_song_position'' None (Some (check_in ''current_time'')) s;
          s = test_do send ''Start playback'' ''start_playback'' None None s;
          s = test_do send ''Stop playback'' ''stop_playback'' None None s
      in test_do send ''Set tempo'' ''set_tempo'' (Some (PDict [(''tempo'', PFloat 124)])) None s)"

definition test_track_management :: "'st hsender \<Rightarrow> 'st harness \<Rightarrow> (py_error + pyval) \<times> 'st harness" where
  "test_track_management send s0 =
     (case test send ''Create MIDI track'' ''create_midi_track'' (Some (PDict [(''index'', PInt (- 1))]))
             (Some (check_in ''index'')) (Some store) PNone s0 of
        (ok1, midi_result, s1) \<Rightarrow>
     (case stored_index midi_result ''index'' 0 of
        Inl e \<Rightarrow> (Inl e, s1)
      | Inr midi_track_idx \<Rightarrow>
     (case test send ''Create audio track'' ''create_audio_track'' (Some (PDict [(''index'', PInt (- 1))]))
             (Some (check_in ''index'')) (Some store) PNone s1 of
        (ok2, audio_result, s2) \<Rightarrow>
     (case stored_index audio_result ''index'' 1 of
        Inl e \<Rightarrow> (Inl e, s2)
      | Inr audio_track_idx \<Rightarrow>
     (let s = test_do send ''Set track name'' ''set_track_name''
                (Some (PDict [(''track_index'', midi_track_idx), (''name'', PStr ''Test Track'')])) None s2;
          s = test_do send ''Get track info'' ''get_track_info''
                (Some (PDict [(''track_index'', midi_track_idx)])) (Some (check_in ''name'')) s;
          s = test_do send ''Set track volume'' ''set_track_volume''
                (Some (PDict [(''track_index'', midi_track_idx), (''volume'', PFloat 0.7)])) None s;
          s = test_do send ''Set track pan'' ''set_track_pan''
                (Some (PDict [(''track_index'', midi_track_idx), (''pan'', PFloat (- 0.2))])) None s;
          s = test_do send ''Set track mute'' ''set_track_mute''
                (Some (PDict [(''track_index'', midi_track_idx), (''mute'', PBool True)])) None s;
          s = test_do send ''Set track solo'' ''set_track_solo''
                (Some (PDict [(''track_index'', midi_track_idx), (''solo'', PBool False)])) None s;
          s = test_do send ''Set track arm'' ''set_track_arm''
                (Some (PDict [(''track_index'', midi_track_idx), (''arm'', PBool True)])) None s;
          s = test_do send ''Get track routing'' ''get_track_routing''
                (Some (PDict [(''track_index'', midi_track_idx)])) (Some (check_in ''input_routing_type'')) s
      in case test send ''Duplicate track'' ''duplicate_track'' (Some (PDict [(''track_index'', midi_track_idx)]))
                (Some (check_in ''new_index'')) (Some store) PNone s of
           (ok3, dup_result, s3) \<Rightarrow>
             (case stored_index dup_result ''new_index'' 0 of
                Inl e \<Rightarrow> (Inl e, s3)
              | Inr dup_track_idx \<Rightarrow> (Inr midi_track_idx, s3)))))))"

definition test_notes :: pyval where
  "test_notes = PList
     [PDict [(''pitch'', PInt 60), (''start_time'', PFloat 0), (''duration'', PFloat 0.5), (''velocity'', PInt 100), (''mute'', PBool False)],
      PDict [(''pitch'', PInt 64), (''start_time'', PFloat 1), (''duration'', PFloat 0.5), (''velocity'', PInt 100), (''mute'', PBool False)],
      PDict [(''pitch'', PInt 67), (''start_time'', PFloat 2), (''duration'', PFloat 0.5), (''velocity'', PInt 100), (''mute'', PBool False)]]"

definition new_notes :: pyval where
  "new_notes = PList
     [PDict [(''pitch'', PInt 72), (''start_time'', PFloat 0), (''duration'', PFloat 1), (''velocity'', PInt 110), (''mute'', PBool False)]]"

definition test_clip_management :: "'st hsender \<Rightarrow> pyval \<Rightarrow> 'st harness \<Rightarrow> 'st harness" where
  "test_clip_management send midi_track_idx s0 =
     (let s = test_do send ''Create clip'' ''create_clip''
                (Some (PDict [(''track_index'', midi_track_idx), (''clip_index'', PInt 0), (''length'', PFloat 4)]))
                (Some (check_in ''name'')) s0;
          s = test_do send ''Add notes to clip'' ''add_notes_to_clip''
                (Some (PDict [(''track_index'', midi_track_idx), (''clip_index'', PInt 0), (''notes'', test_notes)]))
                (Some (check_eq ''note_count'' (PInt 0) 3)) s;
          s = test_do send ''Get clip notes'' ''get_clip_notes''
                (Some (PDict [(''track_index'', midi_track_idx), (''clip_index'', PInt 0)]))
                (Some (check_eq ''note_count'' (PInt 0) 3)) s;
          s = test_do send ''Set clip name'' ''set_clip_name''
                (Some (PDict [(''track_index'', midi_track_idx), (''clip_index'', PInt 0), (''name'', PStr ''Test Clip'')])) None s;
          s = test_do send ''Set clip loop'' ''set_clip_loop''
                (Some (PDict [(''track_index'', midi_track_idx), (''clip_index'', PInt 0),
                              (''loop_start'', PFloat 0), (''loop_end'', PFloat 4), (''looping'', PBool True)]))
                (Some (check_eq ''looping'' PNone 1)) s;
          s = test_do send ''Duplicate clip'' ''duplicate_clip''
                (Some (PDict [(''track_index'', midi_track_idx), (''clip_index'', PInt 0),
                              (''target_track_index'', midi_track_idx), (''target_clip_index'', PInt 1)]))
                (Some (check_eq ''duplicated'' PNone 1)) s;
          s = test_do send ''Remove notes from clip'' ''remove_notes_from_clip''
                (Some (PDict [(''track_index'', midi_track_idx), (''clip_index'', PInt 0),
                              (''start_time'', PFloat 0), (''end_time'', PFloat 1),
                              (''pitch_start'', PInt 0), (''pitch_end'', PInt 128)])) None s;
          s = test_do send ''Replace notes in clip'' ''replace_notes_in_clip''
                (Some (PDict [(''track_index'', midi_track_idx), (''clip_index'', PInt 0), (''notes'', new_notes)])) None s;
          s = test_do send ''Fire clip'' ''fire_clip''
                (Some (PDict [(''track_index'', midi_track_idx), (''clip_index'', PInt 0)])) None s;
          s = test_do send ''Stop clip'' ''stop_clip''
                (Some (PDict [(''track_index'', midi_track_idx), (''clip_index'', PInt 0)])) None s
      in test_do send ''Delete clip'' ''delete_clip''
           (Some (PDict [(''track_index'', midi_track_idx), (''clip_index'', PInt 1)])) None s)"

definition test_device_control :: "'st hsender \<Rightarrow> pyval \<Rightarrow> 'st harness \<Rightarrow> py_error option \<times> 'st harness" where
  "test_device_control send midi_track_idx s0 =
     (let s = test_do send ''Load instrument'' ''load_browser_item''
                (Some (PDict [(''track_index'', midi_track_idx), (''item_uri'', PStr ''query:Synths#Wavetable'')])) None s0
      in case send (snd s) ''get_track_info'' (Some (PDict [(''track_index'', midi_track_idx)])) of
        (track_info, st1) \<Rightarrow>
     (case py_get2 track_info ''result'' (PDict []) ''devices'' (PList []) of
        Inl e \<Rightarrow> (Some e, (fst s, st1))
      | Inr devices \<Rightarrow>
     if truthy devices then
     (case py_item_int devices 0 of
        Inl e \<Rightarrow> (Some e, (fst s, st1))
      | Inr device \<Rightarrow>
     (case py_item_str device ''index'' of
        Inl e \<Rightarrow> (Some e, (fst s, st1))
      | Inr device_idx \<Rightarrow>
     (let s2 = test_do send ''Get device parameters'' ''get_device_parameters''
                 (Some (PDict [(''track_index'', midi_track_idx), (''device_index'', device_idx)]))
                 (Some (check_in ''parameters'')) (fst s, st1)
      in case send (snd s2) ''get_device_parameters''
                (Some (PDict [(''track_index'', midi_track_idx), (''device_index'', device_idx)])) of
        (params_result, st3) \<Rightarrow>
     (case py_get2 params_result ''result'' (PDict []) ''parameters'' (PList []) of
        Inl e \<Rightarrow> (Some e, (fst s2, st3))
      | Inr params \<Rightarrow>
     (case py_len params of
        Inl e \<Rightarrow> (Some e, (fst s2, st3))
      | Inr n \<Rightarrow>
     (case (if n > 1 then
              (case py_item_int params 1 of
                 Inl e \<Rightarrow> (Some e, (fst s2, st3))
               | Inr param \<Rightarrow>
              (case py_item_str param ''index'' of
                 Inl e \<Rightarrow> (Some e, (fst s2, st3))
               | Inr param_idx \<Rightarrow>
              (case py_get param ''value'' (PFloat 0.5) of
                 Inl e \<Rightarrow> (Some e, (fst s2, st3))
               | Inr param_val \<Rightarrow>
              (case py_add_float param_val 0.1 of
                 Inl e \<Rightarrow> (Some e, (fst s2, st3))
               | Inr v \<Rightarrow>
                 (None, test_do send ''Set device parameter'' ''set_device_parameter''
                          (Some (PDict [(''track_index'', midi_track_idx), (''device_index'', device_idx),
                                        (''parameter_index'', param_idx), (''value'', v)])) None (fst s2, st3))))))
            else (None, (fst s2, st3))) of
        (Some e, s4) \<Rightarrow> (Some e, s4)
      | (None, s4) \<Rightarrow>
          (let s = test_do send ''Set device enabled'' ''set_device_enabled''
                     (Some (PDict [(''track_index'', midi_track_idx), (''device_index'', device_idx), (''enabled'', PBool False)])) None s4;
               s = test_do send ''Set device enabled (re-enable)'' ''set_device_enabled''
                     (Some (PDict [(''track_index'', midi_track_idx), (''device_index'', device_idx), (''enabled'', PBool True)])) None s
           in (None, test_do send ''Delete device'' ''delete_device''
                       (Some (PDict [(''track_index'', midi_track_idx), (''device_index'', device_idx)])) None s))))))))
     else (None, (fst s, st1))))"

definition test_scene_management :: "'st hsender \<Rightarrow> 'st harness \<Rightarrow> py_error option \<times> 'st harness" where
  "test_scene_management send s0 =
     (let s = test_do send ''Get scenes'' ''get_scenes'' None (Some (check_in ''scenes'')) s0
      in case test send ''Create scene'' ''create_scene'' (Some (PDict [(''scene_index'', PInt (- 1))]))
                (Some (check_in ''index'')) (Some store) PNone s of
        (ok, scene_result, s1) \<Rightarrow>
     (case stored_index scene_result ''index'' 0 of
        Inl e \<Rightarrow> (Some e, s1)
      | Inr scene_idx \<Rightarrow>
     (let s = test_do send ''Set scene name'' ''set_scene_name''
                (Some (PDict [(''scene_index'', scene_idx), (''name'', PStr ''Test Scene'')])) None s1;
          s = test_do send ''Fire scene'' ''fire_scene'' (Some (PDict [(''scene_index'', PInt 0)])) None s;
          s = test_do send ''Stop all clips'' ''stop_all_clips'' None None s;
          s = test_do send ''Duplicate scene'' ''duplicate_scene'' (Some (PDict [(''scene_index'', scene_idx)])) None s
      in case py_add_int scene_idx 1 of
           Inl e \<Rightarrow> (Some e, s)
         | Inr next_idx \<Rightarrow>
             (let s = test_do send ''Delete scene'' ''delete_scene'' (Some (PDict [(''scene_index'', next_idx)])) None s
              in (None, test_do send ''Delete scene'' ''delete_scene'' (Some (PDict [(''scene_index'', scene_idx)])) None s)))))"

definition test_master_returns :: "'st hsender \<Rightarrow> pyval \<Rightarrow> 'st harness \<Rightarrow> py_error option \<times> 'st harness" where
  "test_master_returns send midi_track_idx s0 =
     (let s = test_do send ''Get master track info'' ''get_master_track_info'' None (Some (check_in ''name'')) s0;
          s = test_do send ''Set master volume'' ''set_master_volume'' (Some (PDict [(''volume'', PFloat 0.8)])) None s;
          s = test_do send ''Get return tracks'' ''get_return_tracks'' None (Some (check_in ''returns'')) s
      in case send (snd s) ''get_return_tracks'' None of
        (return_tracks, st1) \<Rightarrow>
     (case py_get2 return_tracks ''result'' (PDict []) ''return_count'' (PInt 0) of
        Inl e \<Rightarrow> (Some e, (fst s, st1))
      | Inr return_count \<Rightarrow>
     (case py_gt_int return_count 0 of
        Inl e \<Rightarrow> (Some e, (fst s, st1))
      | Inr has_returns \<Rightarrow>
          if has_returns then
            (None, test_do send ''Set track send'' ''set_track_send''
                     (Some (PDict [(''track_index'', midi_track_idx), (''send_index'', PInt 0), (''value'', PFloat 0.5)]))
                     None (fst s, st1))
          else (None, (fst s, st1)))))"

definition test_browser_undo :: "'st hsender \<Rightarrow> 'st harness \<Rightarrow> 'st harness" where
  "test_browser_undo send s0 =
     (let s = test_do send ''Get browser tree'' ''get_browser_tree'' None (Some (check_in ''categories'')) s0;
          s = test_do send ''Get browser items at path'' ''get_browser_items_at_path''
                (Some (PDict [(''path'', PStr ''audio_effects'')])) (Some (check_in ''items'')) s;
          s = test_do send ''Undo'' ''undo'' None None s
      in test_do send ''Redo'' ''redo'' None None s)"

text \<open>The \<^verbatim>\<open>for i in range(tracks_to_delete)\<close> loop.\<close>

fun delete_test_tracks :: "'st hsender \<Rightarrow> pyval \<Rightarrow> int list \<Rightarrow> 'st harness \<Rightarrow> py_error option \<times> 'st harness" where
  "delete_test_tracks send current_track_count [] s = (None, s)"
| "delete_test_tracks send current_track_count (i # rest) s =
     (case py_sub current_track_count (PInt 1) of
        Inl e \<Rightarrow> (Some e, s)
      | Inr a \<Rightarrow>
     (case py_sub a (PInt i) of
        Inl e \<Rightarrow> (Some e, s)
      | Inr track_idx \<Rightarrow>
          delete_test_tracks send current_track_count rest
            (test_do send (''Delete test track '' @ py_str track_idx) ''delete_track''
               (Some (PDict [(''track_index'', track_idx)])) None s)))"

definition cleanup_tracks :: "'st hsender \<Rightarrow> pyval \<Rightarrow> 'st harness \<Rightarrow> py_error option \<times> 'st harness" where
  "cleanup_tracks send initial_track_count s0 =
     (case send (snd s0) ''get_session_info'' None of
        (current_info, st1) \<Rightarrow>
     (case py_get2 current_info ''result'' (PDict []) ''track_count'' (PInt 0) of
        Inl e \<Rightarrow> (Some e, (fst s0, st1))
      | Inr current_track_count \<Rightarrow>
     (case py_sub current_track_count initial_track_count of
        Inl e \<Rightarrow> (Some e, (fst s0, st1))
      | Inr tracks_to_delete \<Rightarrow>
     (case py_range tracks_to_delete of
        Inl e \<Rightarrow> (Some e, (fst s0, st1))
      | Inr indices \<Rightarrow> delete_test_tracks send current_track_count indices (fst s0, st1)))))"

definition run_all_tests :: "'st hsender \<Rightarrow> 'st harness \<Rightarrow> py_error option \<times> 'st harness" where
  "run_all_tests send s0 =
     (case test send ''Connection'' ''get_session_info'' None None
             (None :: (pyval \<Rightarrow> unit \<Rightarrow> py_error + unit) option) () s0 of
        (passed, u, s1) \<Rightarrow>
     if \<not> passed then (None, s1)
     else
     (case send (snd s1) ''get_session_info'' None of
        (initial_info, st2) \<Rightarrow>
     (case py_get2 initial_info ''result'' (PDict []) ''track_count'' (PInt 0) of
        Inl e \<Rightarrow> (Some e, (fst s1, st2))
      | Inr initial_track_count \<Rightarrow>
     (case test_track_management send (test_session_transport send (fst s1, st2)) of
        (Inl e, s4) \<Rightarrow> (Some e, s4)
      | (Inr midi_track_idx, s4) \<Rightarrow>
     (case test_device_control send midi_track_idx (test_clip_management send midi_track_idx s4) of
        (Some e, s6) \<Rightarrow> (Some e, s6)
      | (None, s6) \<Rightarrow>
     (case test_scene_management send s6 of
        (Some e, s7) \<Rightarrow> (Some e, s7)
      | (None, s7) \<Rightarrow>
     (case test_master_returns send midi_track_idx s7 of
        (Some e, s8) \<Rightarrow> (Some e, s8)
      | (None, s8) \<Rightarrow> cleanup_tracks send initial_track_count (test_browser_undo send s8))))))))"

text \<open>
  \<^verbatim>\<open>main\<close>, as the exit code of the process: \<^verbatim>\<open>sys.exit(0 if tester.tests_failed == 0 else 1)\<close>
  after \<^verbatim>\<open>run_all_tests\<close> has returned, and 1 when an exception leaves \<^verbatim>\<open>run_all_tests\<close>,
  which nothing catches.
\<close>

definition main :: "'st hsender \<Rightarrow> 'st \<Rightarrow> int" where
  "main send st =
     (case run_all_tests send (init_tester, st) of
        (Some e, s) \<Rightarrow> 1
      | (None, s) \<Rightarrow> if tests_failed (fst s) = 0 then 0 else 1)"

text \<open>A DAW that answers every command with the same response.\<close>

definition reply_all :: "pyval \<Rightarrow> unit hsender" where
  "reply_all r st cmd_type params = (r, st)"

subsection \<open>Notions for the properties of the harness\<close>

text \<open>
  The counters agree with the list: each counts the records of its status, and every
  record is a pass or a failure.
\<close>

definition harness_inv :: "tester \<Rightarrow> bool" where
  "harness_inv t =
     (tests_passed t = length (filter (\<lambda>r. r_status r = ''passed'') (test_results t)) \<and>
      tests_failed t = length (filter (\<lambda>r. r_status r = ''failed'') (test_results t)) \<and>
      list_all (\<lambda>r. r_status r = ''passed'' \<or> r_status r = ''failed'') (test_results t))"

text \<open>The names of the tests run so far, in order.\<close>

definition names :: "tester \<Rightarrow> string list" where
  "names t = map r_name (test_results t)"

text \<open>A cleanup function, if there is one, returns on every response.\<close>

definition never_raises :: "(pyval \<Rightarrow> 'c \<Rightarrow> py_error + 'c) option \<Rightarrow> bool" where
  "never_raises cleanup_func = (case cleanup_func of None \<Rightarrow> True | Some f \<Rightarrow> \<forall>r c e. f r c \<noteq> Inl e)"



definition clip_names :: "string list" where
  "clip_names =
     [''Create clip'', ''Add notes to clip'', ''Get clip notes'', ''Set clip name'', ''Set clip loop'',
      ''Duplicate clip'', ''Remove notes from clip'', ''Replace notes in clip'', ''Fire clip'', ''Stop clip'',
      ''Delete clip'']"





text \<open>
  Responses for the runs below: one whose \<^verbatim>\<open>result\<close> is \<^verbatim>\<open>null\<close>, one that passes
  every check of the harness, and one with an empty \<^verbatim>\<open>result\<close>.
\<close>

definition null_result :: pyval where
  "null_result = PDict [(''status'', PStr ''success''), (''result'', PNone)]"

definition full_result :: pyval where
  "full_result = PDict [(''status'', PStr ''success''),
     (''result'', PDict [(''tempo'', PFloat 120), (''current_time'', PFloat 0), (''index'', PInt 0),
        (''name'', PStr ''x''), (''input_routing_type'', PStr ''Ext. In''), (''new_index'', PInt 1),
        (''note_count'', PInt 3), (''looping'', PBool True), (''duplicated'', PBool True),
        (''parameters'', PList []), (''scenes'', PList []), (''returns'', PList []),
        (''categories'', PList []), (''items'', PList []), (''track_count'', PInt 2)])]"

definition empty_result :: pyval where
  "empty_result = PDict [(''status'', PStr ''success''), (''result'', PDict [])]"

section \<open>The clients over a DAW\<close>

text \<open>
  The requests are not modelled as bytes. A DAW is a state machine that, from its state and
  a request (the command type and \<^verbatim>\<open>params or {}\<close>), determines what the connection of
  this call does and its next state. Over a DAW and a \<open>loads\<close>, the two \<^verbatim>\<open>send_command\<close>
  functions are what the player and the harness take as \<open>send\<close>.
\<close>

type_synonym 'st daw = "'st \<Rightarrow> string \<Rightarrow> pyval \<Rightarrow> connection \<times> 'st"

definition request_params :: "pyval option \<Rightarrow> pyval" where
  "request_params params = (case params of None \<Rightarrow> PDict [] | Some p \<Rightarrow> if truthy p then p else PDict [])"

definition player_sender :: "(string \<Rightarrow> decode_result) \<Rightarrow> 'st daw \<Rightarrow> 'st sender" where
  "player_sender loads daw st cmd_type params =
     (case daw st cmd_type (request_params params) of
        (conn, st') \<Rightarrow> (send_command loads conn, st'))"

definition tester_sender :: "(string \<Rightarrow> decode_result) \<Rightarrow> 'st daw \<Rightarrow> 'st hsender" where
  "tester_sender loads daw st cmd_type params =
     (case daw st cmd_type (request_params params) of
        (conn, st') \<Rightarrow> (tester_send_command loads conn, st'))"

text \<open>
  A DAW for the example of the specification: it answers a position query with bar 17,
  playing, in a response that arrives in two chunks, and every other command with a
  plain success. Its state counts the position queries.
\<close>

definition scripted_daw :: "nat daw" where
  "scripted_daw n cmd_type params =
     (if cmd_type = ''get_song_position'' then
        (\<lparr>setup_error = None,
          recvs = [Chunk ''{\"status\": \"success\", \"result\": {\"current_bar\": '',
                   Chunk ''17, \"is_playing\": true}}'']\<rparr>, Suc n)
      else (\<lparr>setup_error = None, recvs = [Chunk ''{\"status\": \"success\", \"result\": {}}'']\<rparr>, n))"

section \<open>Properties of the command client\<close>

lemma unparsed_Nil [simp]: "unparsed loads []"
  by (simp add: unparsed_def)

lemma unparsed_iff:
  "unparsed loads cs \<longleftrightarrow>
     (\<forall>c\<in>set cs. c \<noteq> []) \<and> (\<forall>n. 0 < n \<and> n \<le> length cs \<longrightarrow> loads (concat (take n cs)) = JSONError)"
proof -
  have "set [1..<Suc (length cs)] = {n. 0 < n \<and> n \<le> length cs}"
    by (auto simp del: upt_Suc)
  then show ?thesis
    by (simp add: unparsed_def list_all_iff del: upt_Suc)
qed

lemma read_response_skip:
  "\<forall>c\<in>set cs. c \<noteq> [] \<Longrightarrow>
   \<forall>n. 0 < n \<and> n \<le> length cs \<longrightarrow> loads (concat (chunks @ take n cs)) = JSONError \<Longrightarrow>
   read_response loads (map Chunk cs @ evs) chunks = read_response loads evs (chunks @ cs)"
proof (induction cs arbitrary: chunks)
  case Nil
  then show ?case by simp
next
  case (Cons c cs)
  from Cons.prems(2)[rule_format, of 1] have first: "loads (concat (chunks @ [c])) = JSONError"
    by simp
  have rest: "\<forall>n. 0 < n \<and> n \<le> length cs \<longrightarrow> loads (concat ((chunks @ [c]) @ take n cs)) = JSONError"
  proof (intro allI impI)
    fix n assume "0 < n \<and> n \<le> length cs"
    then show "loads (concat ((chunks @ [c]) @ take n cs)) = JSONError"
      using Cons.prems(2)[rule_format, of "Suc n"] by simp
  qed
  from Cons.prems(1) have ne: "c \<noteq> []" and nes: "\<forall>c\<in>set cs. c \<noteq> []" by simp_all
  show ?case using Cons.IH[OF nes rest] first ne by simp
qed

lemma tester_read_skip:
  "\<forall>c\<in>set cs. c \<noteq> [] \<Longrightarrow>
   \<forall>n. 0 < n \<and> n \<le> length cs \<longrightarrow> loads (response @ concat (take n cs)) = JSONError \<Longrightarrow>
   tester_read loads (map Chunk cs @ evs) response = tester_read loads evs (response @ concat cs)"
proof (induction cs arbitrary: response)
  case Nil
  then show ?case by simp
next
  case (Cons c cs)
  from Cons.prems(2)[rule_format, of 1] have first: "loads (response @ c) = JSONError"
    by simp
  have rest: "\<forall>n. 0 < n \<and> n \<le> length cs \<longrightarrow> loads ((response @ c) @ concat (take n cs)) = JSONError"
  proof (intro allI impI)
    fix n assume "0 < n \<and> n \<le> length cs"
    then show "loads ((response @ c) @ concat (take n cs)) = JSONError"
      using Cons.prems(2)[rule_format, of "Suc n"] by simp
  qed
  from Cons.prems(1) have ne: "c \<noteq> []" and nes: "\<forall>c\<in>set cs. c \<noteq> []" by simp_all
  show ?case using Cons.IH[OF nes rest] first ne by simp
qed

lemma player_skip:
  "unparsed loads cs \<Longrightarrow> read_response loads (map Chunk cs @ evs) [] = read_response loads evs cs"
  using read_response_skip[of cs loads "[]" evs] by (simp add: unparsed_iff)

lemma tester_skip:
  "unparsed loads cs \<Longrightarrow> tester_read loads (map Chunk cs @ evs) [] = tester_read loads evs (concat cs)"
  using tester_read_skip[of cs loads "[]" evs] by (simp add: unparsed_iff)

lemma unparsed_last:
  "unparsed loads cs \<Longrightarrow> loads [] = JSONError \<Longrightarrow> loads (concat cs) = JSONError"
  by (cases "cs = []") (auto simp: unparsed_iff)

text \<open>
  C5, as the code has it. The connection is closed while no buffer received so far,
  the empty one included, was a JSON text. The player's \<^verbatim>\<open>send_command\<close> raises
  \<^verbatim>\<open>JSONDecodeError\<close>. The harness's \<^verbatim>\<open>send_command\<close> raises nothing: it returns a
  response with status \<^verbatim>\<open>error\<close>.
\<close>

theorem close_without_json:
  assumes "setup_error conn = None"
    and "recvs conn = map Chunk cs \<or> recvs conn = map Chunk cs @ Chunk [] # evs"
    and "unparsed loads cs" and "loads [] = JSONError"
  shows "send_command loads conn = Inl JSONDecodeError \<and>
         (\<exists>e. tester_send_command loads conn = error_response e)"
proof -
  have last: "loads (concat cs) = JSONError" using assms(3,4) by (rule unparsed_last)
  have p1: "read_response loads (map Chunk cs @ []) [] = Inl JSONDecodeError"
    using last by (simp add: player_skip[OF assms(3)] final_parse_def del: append_Nil2)
  have p2: "read_response loads (map Chunk cs @ Chunk [] # evs) [] = Inl JSONDecodeError"
    using last by (simp add: player_skip[OF assms(3)] final_parse_def)
  have t1: "tester_read loads (map Chunk cs @ []) [] = Inl UnboundLocalError"
    by (simp add: tester_skip[OF assms(3)] del: append_Nil2)
  have t2: "tester_read loads (map Chunk cs @ Chunk [] # evs) [] = Inl UnboundLocalError"
    by (simp add: tester_skip[OF assms(3)])
  from assms(2) show ?thesis
    using assms(1) p1 p2 t1 t2
    by (auto simp: send_command_def tester_try_def tester_send_command_def)
qed

text \<open>
  C4, as the code has it. The two clients differ. In the player's \<^verbatim>\<open>send_command\<close> an
  error of \<^verbatim>\<open>connect\<close> or \<^verbatim>\<open>sendall\<close> and an error of \<^verbatim>\<open>recv\<close> other than a timeout reach
  the caller as they are, a timeout that finds the buffer incomplete reaches it as the
  \<^verbatim>\<open>JSONDecodeError\<close> of the parse after the loop, and a buffer that does not decode
  reaches it as \<^verbatim>\<open>UnicodeDecodeError\<close>. The harness's \<^verbatim>\<open>send_command\<close> catches each of
  these and returns the response \<^verbatim>\<open>{"status": "error", "message": str(e)}\<close> instead.
\<close>

theorem player_raises_tester_returns:
  "(setup_error conn = Some e \<longrightarrow>
      send_command loads conn = Inl e \<and> tester_send_command loads conn = error_response e) \<and>
   (setup_error conn = None \<and> recvs conn = map Chunk cs @ Failure # evs \<and> unparsed loads cs \<longrightarrow>
      send_command loads conn = Inl OSError \<and> tester_send_command loads conn = error_response OSError) \<and>
   (setup_error conn = None \<and> recvs conn = map Chunk cs @ Timeout # evs \<and> unparsed loads cs \<and>
    loads [] = JSONError \<longrightarrow>
      send_command loads conn = Inl JSONDecodeError \<and>
      tester_send_command loads conn = error_response SocketTimeout) \<and>
   (setup_error conn = None \<and> recvs conn = map Chunk cs @ Chunk c # evs \<and> unparsed loads cs \<and>
    c \<noteq> [] \<and> loads (concat cs @ c) = UnicodeError \<longrightarrow>
      send_command loads conn = Inl UnicodeDecodeError \<and>
      tester_send_command loads conn = error_response UnicodeDecodeError)"
  by (auto simp: send_command_def tester_try_def tester_send_command_def player_skip tester_skip
      final_parse_def dest: unparsed_last)

text \<open>
  C6, as the code has it. When the bytes parse as a whole and every buffer at an
  earlier chunk boundary decodes and is not yet a JSON text, both clients return the
  value of the whole, and so they do when the same bytes arrive in one chunk.
\<close>

theorem chunked_read_is_single_read:
  assumes "unparsed loads cs" and "c \<noteq> []" and "loads (concat cs @ c) = Parsed v"
  shows "send_command loads \<lparr>setup_error = None, recvs = map Chunk cs @ Chunk c # evs\<rparr> = Inr v \<and>
         send_command loads \<lparr>setup_error = None, recvs = Chunk (concat cs @ c) # evs'\<rparr> = Inr v \<and>
         tester_send_command loads \<lparr>setup_error = None, recvs = map Chunk cs @ Chunk c # evs\<rparr> = v \<and>
         tester_send_command loads \<lparr>setup_error = None, recvs = Chunk (concat cs @ c) # evs'\<rparr> = v"
  using assms
  by (simp add: send_command_def tester_try_def tester_send_command_def player_skip tester_skip)

lemmas json_eval = json_loads_def byte_in_def skip_ws_def is_ws_def lex_number_def is_digit_def
  digits_val_def digit_val_def unescape_def Let_def

lemma loads_empty: "json_loads [] = JSONError"
  by (simp add: json_eval)

lemma loads_partial: "json_loads ''{\"status\": \"succ'' = JSONError"
  by (simp add: json_eval)

lemma loads_whole: "json_loads ''{\"status\": \"success\"}'' = Parsed (PDict [(''status'', PStr ''success'')])"
  by (simp add: json_eval)

lemma unparsed_partial: "unparsed json_loads [''{\"status\": \"succ'']"
  by (simp add: unparsed_def loads_partial)

text \<open>
  A refused connection: the player's \<^verbatim>\<open>send_command\<close> raises, the harness's returns a
  response, so there the error is caught inside \<^verbatim>\<open>send_command\<close>.
\<close>

theorem tester_returns_on_refused_connection:
  "send_command json_loads \<lparr>setup_error = Some OSError, recvs = []\<rparr> = Inl OSError \<and>
   tester_try json_loads \<lparr>setup_error = Some OSError, recvs = []\<rparr> = Inl OSError \<and>
   tester_send_command json_loads \<lparr>setup_error = Some OSError, recvs = []\<rparr> =
     PDict [(''status'', PStr ''error''), (''message'', PStr ''OSError'')]"
  by (simp add: send_command_def tester_try_def tester_send_command_def error_response_def)

text \<open>
  The cases of the theorem on a refused connection and on a response that stops after
  its first bytes.
\<close>

theorem player_raises_tester_returns_witness:
  "send_command json_loads \<lparr>setup_error = Some OSError, recvs = []\<rparr> = Inl OSError \<and>
   send_command json_loads \<lparr>setup_error = None, recvs = [Chunk ''{\"status\": \"succ'', Failure]\<rparr> = Inl OSError \<and>
   send_command json_loads \<lparr>setup_error = None, recvs = [Chunk ''{\"status\": \"succ'', Timeout]\<rparr> = Inl JSONDecodeError \<and>
   tester_send_command json_loads \<lparr>setup_error = None, recvs = [Chunk ''{\"status\": \"succ'', Timeout]\<rparr> =
     error_response SocketTimeout"
  using player_raises_tester_returns[of "\<lparr>setup_error = Some OSError, recvs = []\<rparr>" OSError json_loads]
    player_raises_tester_returns[of "\<lparr>setup_error = None, recvs = [Chunk ''{\"status\": \"succ'', Failure]\<rparr>"
      _ json_loads "[''{\"status\": \"succ'']" "[]"]
    player_raises_tester_returns[of "\<lparr>setup_error = None, recvs = [Chunk ''{\"status\": \"succ'', Timeout]\<rparr>"
      _ json_loads "[''{\"status\": \"succ'']" "[]"]
    unparsed_partial loads_empty
  by simp

text \<open>
  The peer closes at once: the player's \<^verbatim>\<open>send_command\<close> raises \<^verbatim>\<open>JSONDecodeError\<close>,
  the harness's returns a value.
\<close>

theorem tester_returns_on_close:
  "send_command json_loads \<lparr>setup_error = None, recvs = []\<rparr> = Inl JSONDecodeError \<and>
   tester_try json_loads \<lparr>setup_error = None, recvs = []\<rparr> = Inl UnboundLocalError \<and>
   tester_send_command json_loads \<lparr>setup_error = None, recvs = []\<rparr> =
     PDict [(''status'', PStr ''error''), (''message'', PStr ''UnboundLocalError'')]"
  by (simp add: send_command_def tester_try_def tester_send_command_def error_response_def loads_empty
      final_parse_def)

text \<open>
  The peer closes in the middle of a response.
\<close>

theorem close_without_json_witness:
  "send_command json_loads \<lparr>setup_error = None, recvs = [Chunk ''{\"status\": \"succ'', Chunk []]\<rparr> =
     Inl JSONDecodeError \<and>
   (\<exists>e. tester_send_command json_loads \<lparr>setup_error = None, recvs = [Chunk ''{\"status\": \"succ'', Chunk []]\<rparr> =
     error_response e)"
  using close_without_json[of "\<lparr>setup_error = None, recvs = [Chunk ''{\"status\": \"succ'', Chunk []]\<rparr>"
      "[''{\"status\": \"succ'']" "[]" json_loads]
    unparsed_partial loads_empty
  by simp

text \<open>
  The JSON text \<^verbatim>\<open>12\<close> arrives as \<^verbatim>\<open>1\<close> and \<^verbatim>\<open>2\<close>: the first chunk is a JSON text of its
  own, and both clients return 1 where a single read returns 12.
\<close>

theorem prefix_is_accepted_early:
  "send_command json_loads \<lparr>setup_error = None, recvs = [Chunk ''1'', Chunk ''2'']\<rparr> = Inr (PInt 1) \<and>
   send_command json_loads \<lparr>setup_error = None, recvs = [Chunk ''12'']\<rparr> = Inr (PInt 12) \<and>
   tester_send_command json_loads \<lparr>setup_error = None, recvs = [Chunk ''1'', Chunk ''2'']\<rparr> = PInt 1 \<and>
   tester_send_command json_loads \<lparr>setup_error = None, recvs = [Chunk ''12'']\<rparr> = PInt 12"
  by (simp add: send_command_def tester_try_def tester_send_command_def json_eval final_parse_def)

text \<open>
  A response split inside a string.
\<close>

theorem chunked_read_is_single_read_witness:
  "send_command json_loads \<lparr>setup_error = None, recvs = [Chunk ''{\"status\": \"succ'', Chunk ''ess\"}'']\<rparr> =
     Inr (PDict [(''status'', PStr ''success'')]) \<and>
   send_command json_loads \<lparr>setup_error = None, recvs = [Chunk ''{\"status\": \"success\"}'']\<rparr> =
     Inr (PDict [(''status'', PStr ''success'')]) \<and>
   tester_send_command json_loads \<lparr>setup_error = None, recvs = [Chunk ''{\"status\": \"succ'', Chunk ''ess\"}'']\<rparr> =
     PDict [(''status'', PStr ''success'')] \<and>
   tester_send_command json_loads \<lparr>setup_error = None, recvs = [Chunk ''{\"status\": \"success\"}'']\<rparr> =
     PDict [(''status'', PStr ''success'')]"
  using chunked_read_is_single_read[of json_loads "[''{\"status\": \"succ'']" "''ess\"}''"
      "PDict [(''status'', PStr ''success'')]" "[]" "[]"]
    unparsed_partial loads_whole
  by simp

text \<open>
  A split inside a multi-byte character is outside the theorem: the first buffer does not
  decode, the player's \<^verbatim>\<open>send_command\<close> raises \<^verbatim>\<open>UnicodeDecodeError\<close>, which its loop does
  not catch, and the harness's returns the error response.
\<close>

lemma split_inside_character:
  "send_command json_loads
     \<lparr>setup_error = None, recvs = [Chunk (''{\"name\": \"'' @ [CHR 0xC3]), Chunk (CHR 0xA9 # ''\"}'')]\<rparr> =
     Inl UnicodeDecodeError \<and>
   tester_send_command json_loads
     \<lparr>setup_error = None, recvs = [Chunk (''{\"name\": \"'' @ [CHR 0xC3]), Chunk (CHR 0xA9 # ''\"}'')]\<rparr> =
     error_response UnicodeDecodeError \<and>
   send_command json_loads
     \<lparr>setup_error = None, recvs = [Chunk (''{\"name\": \"'' @ [CHR 0xC3, CHR 0xA9] @ ''\"}'')]\<rparr> =
     Inr (PDict [(''name'', PStr [CHR 0xC3, CHR 0xA9])])"
  by (simp add: send_command_def tester_try_def tester_send_command_def json_eval)

section \<open>Properties of the arrangement player\<close>

lemma invoke_calls:
  "invoke send c p w = (out, w') \<Longrightarrow> snd w' = snd w @ [(c, p, out)]"
  by (auto simp: invoke_def split: prod.splits)

lemma get_position_calls:
  "get_position send w = (out, w') \<Longrightarrow>
     \<exists>r. snd w' = snd w @ [(''get_song_position'', None, r)] \<and>
         out = (case r of Inl e \<Rightarrow> Inl e | Inr result \<Rightarrow> py_get result ''result'' result)"
  by (auto simp: get_position_def dest!: invoke_calls split: prod.splits sum.splits)

lemma fire_scene_calls:
  "fire_scene send i w = (out, w') \<Longrightarrow>
     \<exists>r. snd w' = snd w @ [(''fire_scene'', Some (PDict [(''scene_index'', PInt i)]), r)]"
  by (auto simp: fire_scene_def dest!: invoke_calls split: prod.splits sum.splits)

lemma poll_loop_step:
  assumes "poll_loop (Suc fuel) send arr idx w = (ex, w')" and "idx < length arr"
  obtains
    (halt) r where "snd w' = snd w @ [(''get_song_position'', None, r)]" "ex \<noteq> Some Complete"
      "reports_stopped (''get_song_position'', None, r) \<Longrightarrow> ex = Some Stopped"
  | (fire_raise) r r2 e where
      "snd w' = snd w @ [(''get_song_position'', None, r), (''fire_scene'', fire_params (arr ! idx), r2)]"
      "ex = Some (Raised e)" "\<not> reports_stopped (''get_song_position'', None, r)"
  | (fire_ok) r r2 w2 where
      "snd w2 = snd w @ [(''get_song_position'', None, r), (''fire_scene'', fire_params (arr ! idx), r2)]"
      "poll_loop fuel send arr (Suc idx) w2 = (ex, w')"
      "\<not> reports_stopped (''get_song_position'', None, r)"
  | (wait) r w1 where
      "snd w1 = snd w @ [(''get_song_position'', None, r)]"
      "poll_loop fuel send arr idx w1 = (ex, w')"
      "\<not> reports_stopped (''get_song_position'', None, r)"
proof -
  obtain out w1 where gp: "get_position send w = (out, w1)" by (cases "get_position send w")
  from get_position_calls[OF gp] obtain r where
    w1: "snd w1 = snd w @ [(''get_song_position'', None, r)]" and
    r: "out = (case r of Inl e \<Rightarrow> Inl e | Inr result \<Rightarrow> py_get result ''result'' result)"
    by auto
  obtain nb ns nn where cue: "arr ! idx = (nb, ns, nn)" by (cases "arr ! idx")
  obtain fo w2 where fs: "fire_scene send ns w1 = (fo, w2)" by (cases "fire_scene send ns w1")
  from fire_scene_calls[OF fs] w1 obtain r2 where
    w2: "snd w2 = snd w @ [(''get_song_position'', None, r), (''fire_scene'', fire_params (arr ! idx), r2)]"
    by (auto simp: fire_params_def cue)
  show thesis
  proof (cases out)
    case (Inl e)
    then have "w' = w1" "ex = Some (Raised e)" using assms gp by auto
    moreover have "\<not> reports_stopped (''get_song_position'', None, r)"
      using r Inl by (auto simp: reports_stopped_def split: sum.splits)
    ultimately show ?thesis using halt[of r] w1 by auto
  next
    case (Inr pos)
    from r Inr obtain result where res: "r = Inr result" "py_get result ''result'' result = Inr pos"
      by (cases r) auto
    show ?thesis
    proof (cases "py_get pos ''is_playing'' (PBool False)")
      case (Inl e)
      then obtain e' where "py_get pos ''current_bar'' (PInt 0) = Inl e'" by (cases pos) auto
      then have "w' = w1" "ex = Some (Raised e')" using assms gp Inr by auto
      moreover have "\<not> reports_stopped (''get_song_position'', None, r)"
        using res Inl by (simp add: reports_stopped_def)
      ultimately show ?thesis using halt[of r] w1 by auto
    next
      case ip: (Inr is_playing)
      then obtain current_bar where cb: "py_get pos ''current_bar'' (PInt 0) = Inr current_bar" by (cases pos) auto
      show ?thesis
      proof (cases "truthy is_playing")
        case False
        then have "w' = w1" "ex = Some Stopped" using assms gp Inr ip cb by auto
        then show ?thesis using halt[of r] w1 by auto
      next
        case True
        then have ns: "\<not> reports_stopped (''get_song_position'', None, r)"
          using res ip by (simp add: reports_stopped_def)
        show ?thesis
        proof (cases "py_ge_int current_bar nb")
          case (Inl e)
          then have "w' = w1" "ex = Some (Raised e)" using assms gp Inr ip cb True cue by auto
          then show ?thesis using halt[of r] w1 ns by auto
        next
          case due: (Inr due)
          show ?thesis
          proof (cases due)
            case False
            then have "poll_loop fuel send arr idx w1 = (ex, w')"
              using assms gp Inr ip cb True cue due by auto
            then show ?thesis using wait[of w1 r] w1 ns by auto
          next
            case t: True
            show ?thesis
            proof (cases fo)
              case (Inl e)
              then have "w' = w2" "ex = Some (Raised e)" using assms gp Inr ip cb True cue due t fs by auto
              then show ?thesis using fire_raise[of r r2 e] w2 ns by auto
            next
              case (Inr x)
              then have "poll_loop fuel send arr (Suc idx) w2 = (ex, w')"
                using assms gp \<open>out = Inr pos\<close> ip cb True cue due t fs by auto
              then show ?thesis using fire_ok[of w2 r r2] w2 ns by auto
            qed
          qed
        qed
      qed
    qed
  qed
qed

lemma fired_scenes_append [simp]: "fired_scenes (xs @ ys) = fired_scenes xs @ fired_scenes ys"
  by (simp add: fired_scenes_def)

lemma polls_append [simp]: "polls (xs @ ys) = polls xs @ polls ys"
  by (simp add: polls_def)

lemma fired_scenes_Cons [simp]:
  "fired_scenes ((c, p, r) # cs) = (if c = ''fire_scene'' then p # fired_scenes cs else fired_scenes cs)"
  by (simp add: fired_scenes_def)

lemma fired_scenes_Nil [simp]: "fired_scenes [] = []"
  by (simp add: fired_scenes_def)

lemma polls_Cons [simp]:
  "polls ((c, p, r) # cs) = (if c = ''get_song_position'' then (c, p, r) # polls cs else polls cs)"
  by (simp add: polls_def)

lemma polls_Nil [simp]: "polls [] = []"
  by (simp add: polls_def)

lemma take_Suc_drop: "idx < length xs \<Longrightarrow> idx < j \<Longrightarrow> take (j - idx) (drop idx xs) = xs ! idx # take (j - Suc idx) (drop (Suc idx) xs)"
  by (metis Cons_nth_drop_Suc Suc_diff_Suc take_Suc_Cons)

lemma poll_loop_fired:
  "poll_loop fuel send arr idx w = (ex, w') \<Longrightarrow> idx \<le> length arr \<Longrightarrow>
     \<exists>j. idx \<le> j \<and> j \<le> length arr \<and>
       fired_scenes (snd w') = fired_scenes (snd w) @ map fire_params (take (j - idx) (drop idx arr)) \<and>
       (ex = Some Complete \<longrightarrow> j = length arr) \<and>
       length (polls (snd w)) + (j - idx) \<le> length (polls (snd w'))"
proof (induction fuel arbitrary: idx w)
  case 0
  then show ?case by (auto split: if_splits)
next
  case (Suc fuel)
  show ?case
  proof (cases "idx < length arr")
    case False
    with Suc.prems show ?thesis by auto
  next
    case True
    from Suc.prems(1) True show ?thesis
    proof (cases rule: poll_loop_step)
      case (halt r)
      then show ?thesis using True by (intro exI[of _ idx]) simp
    next
      case (fire_raise r r2 e)
      then show ?thesis using True
        by (intro exI[of _ "Suc idx"]) (simp add: Cons_nth_drop_Suc[symmetric])
    next
      case (fire_ok r r2 w2)
      from Suc.IH[OF fire_ok(2) Suc_leI[OF True]] obtain j where j: "Suc idx \<le> j" "j \<le> length arr"
        "fired_scenes (snd w') = fired_scenes (snd w2) @ map fire_params (take (j - Suc idx) (drop (Suc idx) arr))"
        "ex = Some Complete \<longrightarrow> j = length arr"
        "length (polls (snd w2)) + (j - Suc idx) \<le> length (polls (snd w'))"
        by blast
      then show ?thesis using True fire_ok(1)
        by (intro exI[of _ j]) (simp add: take_Suc_drop)
    next
      case (wait r w1)
      from Suc.IH[OF wait(2) less_imp_le[OF True]] obtain j where j: "idx \<le> j" "j \<le> length arr"
        "fired_scenes (snd w') = fired_scenes (snd w1) @ map fire_params (take (j - idx) (drop idx arr))"
        "ex = Some Complete \<longrightarrow> j = length arr"
        "length (polls (snd w1)) + (j - idx) \<le> length (polls (snd w'))"
        by blast
      then show ?thesis using True wait(1)
        by (intro exI[of _ j]) simp
    qed
  qed
qed

lemma poll_loop_stop:
  "poll_loop fuel send arr idx w = (ex, w') \<Longrightarrow>
     \<exists>ext. snd w' = snd w @ ext \<and>
       (\<forall>i < length ext. reports_stopped (ext ! i) \<longrightarrow> Suc i = length ext \<and> ex = Some Stopped)"
proof (induction fuel arbitrary: idx w)
  case 0
  then show ?case by (auto split: if_splits)
next
  case (Suc fuel)
  show ?case
  proof (cases "idx < length arr")
    case False
    with Suc.prems show ?thesis by auto
  next
    case True
    from Suc.prems(1) True show ?thesis
    proof (cases rule: poll_loop_step)
      case (halt r)
      then show ?thesis by (intro exI[of _ "[(''get_song_position'', None, r)]"]) auto
    next
      case (fire_raise r r2 e)
      then show ?thesis
        by (intro exI[of _ "[(''get_song_position'', None, r), (''fire_scene'', fire_params (arr ! idx), r2)]"])
           (auto simp: less_Suc_eq reports_stopped_def)
    next
      case (fire_ok r r2 w2)
      from Suc.IH[OF fire_ok(2)] obtain ext where ext: "snd w' = snd w2 @ ext"
        "\<forall>i < length ext. reports_stopped (ext ! i) \<longrightarrow> Suc i = length ext \<and> ex = Some Stopped"
        by blast
      have "\<forall>i < length ([(''get_song_position'', None, r), (''fire_scene'', fire_params (arr ! idx), r2)] @ ext).
              reports_stopped (([(''get_song_position'', None, r), (''fire_scene'', fire_params (arr ! idx), r2)] @ ext) ! i)
              \<longrightarrow> Suc i = length ([(''get_song_position'', None, r), (''fire_scene'', fire_params (arr ! idx), r2)] @ ext) \<and> ex = Some Stopped"
        using ext(2) fire_ok(3)
        by (auto simp: nth_Cons reports_stopped_def split: nat.splits)
      then show ?thesis using ext(1) fire_ok(1)
        by (intro exI[of _ "[(''get_song_position'', None, r), (''fire_scene'', fire_params (arr ! idx), r2)] @ ext"]) simp
    next
      case (wait r w1)
      from Suc.IH[OF wait(2)] obtain ext where ext: "snd w' = snd w1 @ ext"
        "\<forall>i < length ext. reports_stopped (ext ! i) \<longrightarrow> Suc i = length ext \<and> ex = Some Stopped"
        by blast
      have "\<forall>i < length ([(''get_song_position'', None, r)] @ ext).
              reports_stopped (([(''get_song_position'', None, r)] @ ext) ! i)
              \<longrightarrow> Suc i = length ([(''get_song_position'', None, r)] @ ext) \<and> ex = Some Stopped"
        using ext(2) wait(3)
        by (auto simp: nth_Cons split: nat.splits)
      then show ?thesis using ext(1) wait(1)
        by (intro exI[of _ "[(''get_song_position'', None, r)] @ ext"]) simp
    qed
  qed
qed

lemma adjacent_fires_append:
  "\<not> adjacent_fires xs \<Longrightarrow> \<not> adjacent_fires ys \<Longrightarrow> (ys = [] \<or> fst (hd ys) \<noteq> ''fire_scene'') \<Longrightarrow>
     \<not> adjacent_fires (xs @ ys)"
proof (induction xs)
  case Nil
  then show ?case by simp
next
  case step: (Cons a xs)
  show ?case
  proof (cases xs)
    case Nil
    then show ?thesis using step.prems by (cases ys) auto
  next
    case (Cons b zs)
    then show ?thesis using step.IH step.prems by auto
  qed
qed

lemma poll_loop_spacing:
  "poll_loop fuel send arr idx w = (ex, w') \<Longrightarrow>
     \<exists>ext. snd w' = snd w @ ext \<and> (ext = [] \<or> fst (hd ext) = ''get_song_position'') \<and> \<not> adjacent_fires ext"
proof (induction fuel arbitrary: idx w)
  case 0
  then show ?case by (auto split: if_splits)
next
  case (Suc fuel)
  show ?case
  proof (cases "idx < length arr")
    case False
    with Suc.prems show ?thesis by auto
  next
    case True
    from Suc.prems(1) True show ?thesis
    proof (cases rule: poll_loop_step)
      case (halt r)
      then show ?thesis by (intro exI[of _ "[(''get_song_position'', None, r)]"]) auto
    next
      case (fire_raise r r2 e)
      then show ?thesis
        by (intro exI[of _ "[(''get_song_position'', None, r), (''fire_scene'', fire_params (arr ! idx), r2)]"]) auto
    next
      case (fire_ok r r2 w2)
      from Suc.IH[OF fire_ok(2)] obtain ext where ext: "snd w' = snd w2 @ ext"
        "ext = [] \<or> fst (hd ext) = ''get_song_position''" "\<not> adjacent_fires ext"
        by blast
      have "\<not> adjacent_fires ([(''get_song_position'', None, r), (''fire_scene'', fire_params (arr ! idx), r2)] @ ext)"
        using ext(2,3) by (intro adjacent_fires_append) auto
      then show ?thesis using ext(1) fire_ok(1)
        by (intro exI[of _ "[(''get_song_position'', None, r), (''fire_scene'', fire_params (arr ! idx), r2)] @ ext"]) simp
    next
      case (wait r w1)
      from Suc.IH[OF wait(2)] obtain ext where ext: "snd w' = snd w1 @ ext"
        "ext = [] \<or> fst (hd ext) = ''get_song_position''" "\<not> adjacent_fires ext"
        by blast
      have "\<not> adjacent_fires ([(''get_song_position'', None, r)] @ ext)"
        using ext(2,3) by (intro adjacent_fires_append) auto
      then show ?thesis using ext(1) wait(1)
        by (intro exI[of _ "[(''get_song_position'', None, r)] @ ext"]) simp
    qed
  qed
qed

lemma run_arrangement_cases:
  assumes "run_arrangement fuel send arr0 st = (ex, w)"
  obtains
    (start_raise) e where "snd w = [(''start_playback'', None, Inl e)]" "ex = Some (Raised e)"
  | (empty) r where "arr0 = []" "snd w = [(''start_playback'', None, r)]" "ex = Some (Raised IndexError)"
  | (first_raise) r r2 e c cs where "sort_key fst arr0 = c # cs"
      "snd w = [(''start_playback'', None, r), (''fire_scene'', fire_params c, r2)]" "ex = Some (Raised e)"
  | (loop) r r2 c cs w2 where "sort_key fst arr0 = c # cs"
      "snd w2 = [(''start_playback'', None, r), (''fire_scene'', fire_params c, r2)]"
      "poll_loop fuel send (sort_key fst arr0) 1 w2 = (ex, w)"
proof -
  obtain out w1 where sp: "start_playback send (st, []) = (out, w1)"
    by (cases "start_playback send (st, [])")
  then have w1: "snd w1 = [(''start_playback'', None, out)]"
    by (auto simp: start_playback_def dest!: invoke_calls)
  show thesis
  proof (cases out)
    case (Inl e)
    then show ?thesis using assms sp w1 start_raise[of e] by (auto simp: run_arrangement_def)
  next
    case (Inr r0)
    show ?thesis
    proof (cases "sort_key fst arr0")
      case Nil
      then have "arr0 = []" by (metis length_0_conv length_sort)
      then show ?thesis using assms sp w1 Inr empty[of out] by (auto simp: run_arrangement_def)
    next
      case (Cons c cs)
      obtain fb fsc fn where c: "c = (fb, fsc, fn)" by (cases c)
      obtain fo w2 where fs: "fire_scene send fsc w1 = (fo, w2)" by (cases "fire_scene send fsc w1")
      from fire_scene_calls[OF fs] w1 obtain r2 where
        w2: "snd w2 = [(''start_playback'', None, out), (''fire_scene'', fire_params c, r2)]"
        by (auto simp: fire_params_def c)
      show ?thesis
      proof (cases fo)
        case (Inl e)
        then show ?thesis using assms sp Inr Cons c fs w2 first_raise[of c cs out r2 e]
          by (auto simp: run_arrangement_def)
      next
        case (Inr x)
        then show ?thesis using assms sp \<open>out = Inr r0\<close> Cons c fs w2 loop[of c cs w2 out r2]
          by (auto simp: run_arrangement_def)
      qed
    qed
  qed
qed

lemma get_position_feed:
  "get_position (feed_send feed) (n, calls) =
     (Inr (PDict [(''current_bar'', PInt (fst (feed n))), (''is_playing'', PBool (snd (feed n)))]),
      (Suc n, calls @ [(''get_song_position'', None, Inr (position_response (feed n)))]))"
  by (simp add: get_position_def invoke_def feed_send_def position_response_def)

lemma fire_scene_feed:
  "\<exists>r calls'. fire_scene (feed_send feed) i (n, calls) = (Inr r, (n, calls'))"
  by (simp add: fire_scene_def invoke_def feed_send_def)

lemma fire_scene_feed_eq:
  "fire_scene (feed_send feed) i (n, calls) =
     (Inr (PDict []),
      (n, calls @ [(''fire_scene'', Some (PDict [(''scene_index'', PInt i)]),
                    Inr (PDict [(''status'', PStr ''success''), (''result'', PDict [])]))]))"
  by (simp add: fire_scene_def invoke_def feed_send_def)

lemma poll_loop_feed_due:
  assumes "idx < length arr" and "snd (feed n)" and "fst (arr ! idx) \<le> fst (feed n)"
  shows "poll_loop (Suc fuel) (feed_send feed) arr idx (n, calls) =
         poll_loop fuel (feed_send feed) arr (Suc idx)
           (Suc n, calls @
              [(''get_song_position'', None, Inr (position_response (feed n))),
               (''fire_scene'', fire_params (arr ! idx),
                Inr (PDict [(''status'', PStr ''success''), (''result'', PDict [])]))])"
  using assms
  by (cases "arr ! idx") (simp add: get_position_feed fire_scene_feed_eq py_ge_int_def fire_params_def)

text \<open>
  C1, as the code has it. The scheduler does not skip a cue that the position has
  overtaken. In every run, finished or still polling, the \<^verbatim>\<open>fire_scene\<close> calls follow the
  sorted cues from the first one on without a gap, and no two of them are made without
  a position query in between. Against the simulated DAW, a poll that reports playback
  running and a bar at or beyond the bar of the earliest pending cue fires that cue and
  only that cue, and moves the pointer on by one: a cue overtaken at the same time
  stays pending for the next poll.
\<close>

theorem no_cue_skipped:
  "(run_arrangement fuel send arr st = (ex, w) \<longrightarrow>
      prefix (fired_scenes (snd w)) (map fire_params (sort_key fst arr)) \<and> \<not> adjacent_fires (snd w)) \<and>
   (idx < length arr \<and> snd (feed n) \<and> fst (arr ! idx) \<le> fst (feed n) \<longrightarrow>
      poll_loop (Suc k) (feed_send feed) arr idx (n, calls) =
      poll_loop k (feed_send feed) arr (Suc idx)
        (Suc n, calls @
           [(''get_song_position'', None, Inr (position_response (feed n))),
            (''fire_scene'', fire_params (arr ! idx),
             Inr (PDict [(''status'', PStr ''success''), (''result'', PDict [])]))]))"
proof (intro conjI impI)
  assume run: "run_arrangement fuel send arr st = (ex, w)"
  show "prefix (fired_scenes (snd w)) (map fire_params (sort_key fst arr))"
    using run
  proof (cases rule: run_arrangement_cases)
    case (start_raise e)
    then show ?thesis by simp
  next
    case (empty r)
    then show ?thesis by simp
  next
    case (first_raise r r2 e c cs)
    then show ?thesis by simp
  next
    case (loop r r2 c cs w2)
    have len: "1 \<le> length (sort_key fst arr)" using loop(1) by simp
    from poll_loop_fired[OF loop(3) len] obtain j where j: "1 \<le> j" "j \<le> length (sort_key fst arr)"
      "fired_scenes (snd w) = fired_scenes (snd w2) @ map fire_params (take (j - 1) (drop 1 (sort_key fst arr)))"
      by blast
    have "fired_scenes (snd w) = map fire_params (take j (sort_key fst arr))"
      using j loop(1,2) by (cases j) auto
    then show ?thesis
      by (metis append_take_drop_id map_append prefixI)
  qed
  show "\<not> adjacent_fires (snd w)"
    using run
  proof (cases rule: run_arrangement_cases)
    case (start_raise e)
    then show ?thesis by simp
  next
    case (empty r)
    then show ?thesis by simp
  next
    case (first_raise r r2 e c cs)
    then show ?thesis by simp
  next
    case (loop r r2 c cs w2)
    from poll_loop_spacing[OF loop(3)] obtain ext where ext: "snd w = snd w2 @ ext"
      "ext = [] \<or> fst (hd ext) = ''get_song_position''" "\<not> adjacent_fires ext"
      by blast
    have "\<not> adjacent_fires (snd w2 @ ext)"
      using ext(2,3) loop(2) by (intro adjacent_fires_append) auto
    with ext(1) show ?thesis by simp
  qed
next
  assume "idx < length arr \<and> snd (feed n) \<and> fst (arr ! idx) \<le> fst (feed n)"
  then show "poll_loop (Suc k) (feed_send feed) arr idx (n, calls) =
      poll_loop k (feed_send feed) arr (Suc idx)
        (Suc n, calls @
           [(''get_song_position'', None, Inr (position_response (feed n))),
            (''fire_scene'', fire_params (arr ! idx),
             Inr (PDict [(''status'', PStr ''success''), (''result'', PDict [])]))])"
    by (intro poll_loop_feed_due) simp_all
qed

lemma reports_stopped_cmd: "reports_stopped (c, p, r) \<Longrightarrow> c = ''get_song_position''"
  by (auto simp: reports_stopped_def split: sum.splits)

text \<open>
  C3. Whatever the bound on the polls, a position query that reports \<^verbatim>\<open>is_playing\<close> as
  false is the last call of the run: no \<^verbatim>\<open>fire_scene\<close> (and no other command) follows it,
  and the run has ended in \<open>Stopped\<close>, a normal return.
\<close>

theorem stop_ends_run:
  assumes "run_arrangement fuel send arr st = (ex, w)"
    and "i < length (snd w)" and "reports_stopped (snd w ! i)"
  shows "Suc i = length (snd w) \<and> ex = Some Stopped"
  using assms(1)
proof (cases rule: run_arrangement_cases)
  case (start_raise e)
  then show ?thesis using assms(2,3) by (auto dest: reports_stopped_cmd)
next
  case (empty r)
  then show ?thesis using assms(2,3) by (auto dest: reports_stopped_cmd)
next
  case (first_raise r r2 e c cs)
  then show ?thesis using assms(2,3)
    by (auto simp: nth_Cons dest: reports_stopped_cmd split: nat.splits)
next
  case (loop r r2 c cs w2)
  from poll_loop_stop[OF loop(3)] obtain ext where ext: "snd w = snd w2 @ ext"
    "\<forall>i < length ext. reports_stopped (ext ! i) \<longrightarrow> Suc i = length ext \<and> ex = Some Stopped"
    by blast
  have "2 \<le> i"
  proof (rule ccontr)
    assume "\<not> 2 \<le> i"
    then have "i = 0 \<or> i = 1" by auto
    then show False using assms(3) ext(1) loop(2)
      by (auto dest: reports_stopped_cmd)
  qed
  then obtain k where k: "i = 2 + k" using le_Suc_ex by blast
  then have "snd w ! i = ext ! k" "k < length ext"
    using ext(1) loop(2) assms(2) by (auto simp: nth_append)
  then show ?thesis using ext(2) assms(3) k ext(1) loop(2) by auto
qed

text \<open>
  C9. On the empty arrangement the run sends \<^verbatim>\<open>start_playback\<close> and nothing else. When that
  call returns, \<^verbatim>\<open>arrangement[0]\<close> raises \<^verbatim>\<open>IndexError\<close>; when it raises, its exception leaves
  the function. Either way the run does not end in \<open>Complete\<close> and fires no scene.
\<close>

theorem empty_arrangement_raises:
  "run_arrangement fuel send [] st =
     (case send st ''start_playback'' None of
        (Inl e, st') \<Rightarrow> (Some (Raised e), (st', [(''start_playback'', None, Inl e)]))
      | (Inr r, st') \<Rightarrow> (Some (Raised IndexError), (st', [(''start_playback'', None, Inr r)])))"
  by (auto simp: run_arrangement_def start_playback_def invoke_def split: prod.splits sum.splits)

lemma poll_loop_feed_complete:
  assumes playing: "\<forall>i. snd (feed i)"
    and reach: "\<forall>i\<ge>k. \<forall>c\<in>set arr. fst c \<le> fst (feed i)"
  shows "idx \<le> length arr \<Longrightarrow> (k - n) + (length arr - idx) \<le> fuel \<Longrightarrow>
    \<exists>n' calls'. poll_loop fuel (feed_send feed) arr idx (n, calls) = (Some Complete, (n', calls'))"
proof (induction fuel arbitrary: idx n calls)
  case 0
  then show ?case by auto
next
  case (Suc fuel)
  show ?case
  proof (cases "idx < length arr")
    case False
    then show ?thesis by simp
  next
    case True
    obtain nb ns nn where cue: "arr ! idx = (nb, ns, nn)" by (cases "arr ! idx")
    have mem: "(nb, ns, nn) \<in> set arr" using True cue by (metis nth_mem)
    let ?calls1 = "calls @ [(''get_song_position'', None, Inr (position_response (feed n)))]"
    show ?thesis
    proof (cases "nb \<le> fst (feed n)")
      case due: True
      obtain r calls2 where fs: "fire_scene (feed_send feed) ns (Suc n, ?calls1) = (Inr r, (Suc n, calls2))"
        using fire_scene_feed by blast
      have "(k - Suc n) + (length arr - Suc idx) \<le> fuel" using Suc.prems True by arith
      from Suc.IH[OF Suc_leI[OF True] this, of calls2] obtain n' calls' where
        "poll_loop fuel (feed_send feed) arr (Suc idx) (Suc n, calls2) = (Some Complete, (n', calls'))"
        by blast
      then show ?thesis using True cue due playing fs
        by (simp add: get_position_feed py_ge_int_def)
    next
      case notdue: False
      have "n < k"
      proof (rule ccontr)
        assume "\<not> n < k"
        then have "k \<le> n" by simp
        with reach mem have "fst (nb, ns, nn) \<le> fst (feed n)" by blast
        with notdue show False by simp
      qed
      then have "(k - Suc n) + (length arr - idx) \<le> fuel" using Suc.prems True by arith
      from Suc.IH[OF less_imp_le[OF True] this, of ?calls1] obtain n' calls' where
        "poll_loop fuel (feed_send feed) arr idx (Suc n, ?calls1) = (Some Complete, (n', calls'))"
        by blast
      then show ?thesis using True cue notdue playing
        by (simp add: get_position_feed py_ge_int_def)
    qed
  qed
qed

lemma sorted_wrt_less_sort_key:
  "distinct (map fst arr) \<Longrightarrow> sorted_wrt (<) (map fst (sort_key fst (arr :: cue list)))"
proof -
  assume d: "distinct (map fst arr)"
  have "mset (map fst (sort_key fst arr)) = mset (map fst arr)" by simp
  then have "distinct (map fst (sort_key fst arr))" using d by (metis mset_eq_imp_distinct_iff)
  moreover have "sorted (map fst (sort_key fst arr))" by (rule sorted_sort_key)
  ultimately show ?thesis by (simp add: strict_sorted_iff)
qed

text \<open>
  C2, as the code has it. Take a non-empty arrangement and a position feed that always
  reports playing and, from the \<open>k\<close>-th query on, a bar at or beyond every cue. Then the
  run ends in \<open>Complete\<close> within \<open>k + length arr\<close> polls, and its \<^verbatim>\<open>fire_scene\<close> calls are
  exactly the cues of the arrangement, each once, in the order of the stable sort by bar
  number. The bars are then non-decreasing, and strictly increasing when no two cues
  share a bar number.
\<close>

theorem all_cues_fired_in_order:
  assumes nonempty: "arr \<noteq> []"
    and playing: "\<forall>i. snd (feed i)"
    and reach: "\<forall>i\<ge>k. \<forall>c\<in>set arr. fst c \<le> fst (feed i)"
    and fuel: "k + length arr \<le> fuel"
  shows "\<exists>n calls. run_arrangement fuel (feed_send feed) arr 0 = (Some Complete, (n, calls)) \<and>
           fired_scenes calls = map fire_params (sort_key fst arr) \<and>
           mset (sort_key fst arr) = mset arr \<and>
           sorted (map fst (sort_key fst arr)) \<and>
           (distinct (map fst arr) \<longrightarrow> sorted_wrt (<) (map fst (sort_key fst arr)))"
proof -
  let ?arr = "sort_key fst arr"
  obtain c cs where arr: "?arr = c # cs" using nonempty by (metis length_0_conv length_sort neq_Nil_conv)
  obtain fb fsc fn where c: "c = (fb, fsc, fn)" by (cases c)
  obtain r calls2 where fs: "fire_scene (feed_send feed) fsc (0, [(''start_playback'', None, Inr (PDict [(''status'', PStr ''success''), (''result'', PDict [])]))]) = (Inr r, (0, calls2))"
    using fire_scene_feed by blast
  have reach': "\<forall>i\<ge>k. \<forall>c\<in>set ?arr. fst c \<le> fst (feed i)" using reach by simp
  have "(k - 0) + (length ?arr - 1) \<le> fuel" using fuel by simp
  from poll_loop_feed_complete[OF playing reach' _ this, of calls2] arr obtain n calls where
    pl: "poll_loop fuel (feed_send feed) ?arr 1 (0, calls2) = (Some Complete, (n, calls))"
    by auto
  have run: "run_arrangement fuel (feed_send feed) arr 0 = (Some Complete, (n, calls))"
    using arr c fs pl by (simp add: run_arrangement_def start_playback_def invoke_def feed_send_def)
  have len: "1 \<le> length ?arr" using arr by simp
  from poll_loop_fired[OF pl len] have
    "fired_scenes calls = fired_scenes calls2 @ map fire_params (drop 1 ?arr)"
    by auto
  moreover have "fired_scenes calls2 = [fire_params c]"
    using fs by (auto simp: fire_scene_def invoke_def feed_send_def fire_params_def c)
  ultimately have "fired_scenes calls = map fire_params ?arr" using arr by simp
  then show ?thesis using run sorted_wrt_less_sort_key[of arr] by (auto intro: sorted_sort_key)
qed

subsection \<open>Runs against the simulated DAW\<close>

lemmas player_eval = run_arrangement_def start_playback_def invoke_def feed_send_def fire_scene_def
  get_position_def position_response_def py_ge_int_def

lemma jump_run:
  "run_arrangement 3 (feed_send (\<lambda>i. if i = 0 then (10, True) else (50, True)))
     [(1, 4, ''Intro''), (20, 0, ''A''), (30, 1, ''B'')] 0 =
   (Some Complete, (3,
     [(''start_playback'', None, Inr (PDict [(''status'', PStr ''success''), (''result'', PDict [])])),
      (''fire_scene'', Some (PDict [(''scene_index'', PInt 4)]), Inr (PDict [(''status'', PStr ''success''), (''result'', PDict [])])),
      (''get_song_position'', None, Inr (position_response (10, True))),
      (''get_song_position'', None, Inr (position_response (50, True))),
      (''fire_scene'', Some (PDict [(''scene_index'', PInt 0)]), Inr (PDict [(''status'', PStr ''success''), (''result'', PDict [])])),
      (''get_song_position'', None, Inr (position_response (50, True))),
      (''fire_scene'', Some (PDict [(''scene_index'', PInt 1)]), Inr (PDict [(''status'', PStr ''success''), (''result'', PDict [])]))]))"
  by (simp add: player_eval eval_nat_numeral)

text \<open>
  The run of C1's example: cues at bars 1, 20 and 30, and a position feed that reports
  bar 10 and then bar 50. The query that reports bar 50 is followed by the cue of bar 20
  (scene 0), the next query by the cue of bar 30 (scene 1): the cue of bar 20 is fired,
  not skipped.
\<close>

theorem jump_fires_overtaken_cues:
  "\<exists>n calls. run_arrangement 3 (feed_send (\<lambda>i. if i = 0 then (10, True) else (50, True)))
       [(1, 4, ''Intro''), (20, 0, ''A''), (30, 1, ''B'')] 0 = (Some Complete, (n, calls)) \<and>
     fired_scenes calls = [fire_params (1, 4, ''Intro''), fire_params (20, 0, ''A''), fire_params (30, 1, ''B'')] \<and>
     map fst calls = [''start_playback'', ''fire_scene'', ''get_song_position'', ''get_song_position'',
                      ''fire_scene'', ''get_song_position'', ''fire_scene'']"
  by (simp add: jump_run fire_params_def)

text \<open>
  The same run, through the theorem.
\<close>

theorem no_cue_skipped_witness:
  "(\<exists>n calls. run_arrangement 3 (feed_send (\<lambda>i. if i = 0 then (10, True) else (50, True)))
       [(1, 4, ''Intro''), (20, 0, ''A''), (30, 1, ''B'')] 0 = (Some Complete, (n, calls)) \<and>
     prefix (fired_scenes calls) (map fire_params (sort_key fst [(1, 4, ''Intro''), (20, 0, ''A''), (30, 1, ''B'')])) \<and>
     \<not> adjacent_fires calls) \<and>
   poll_loop 2 (feed_send (\<lambda>i. if i = 0 then (10, True) else (50, True)))
       [(1, 4, ''Intro''), (20, 0, ''A''), (30, 1, ''B'')] 1 (1, []) =
   poll_loop 1 (feed_send (\<lambda>i. if i = 0 then (10, True) else (50, True)))
       [(1, 4, ''Intro''), (20, 0, ''A''), (30, 1, ''B'')] 2
       (2, [(''get_song_position'', None, Inr (position_response (50, True))),
            (''fire_scene'', fire_params (20, 0, ''A''),
             Inr (PDict [(''status'', PStr ''success''), (''result'', PDict [])]))])"
proof -
  have "prefix (fired_scenes (snd (snd (run_arrangement 3 (feed_send (\<lambda>i. if i = 0 then (10, True) else (50, True)))
          [(1, 4, ''Intro''), (20, 0, ''A''), (30, 1, ''B'')] 0))))
          (map fire_params (sort_key fst [(1, 4, ''Intro''), (20, 0, ''A''), (30, 1, ''B'')])) \<and>
        \<not> adjacent_fires (snd (snd (run_arrangement 3 (feed_send (\<lambda>i. if i = 0 then (10, True) else (50, True)))
          [(1, 4, ''Intro''), (20, 0, ''A''), (30, 1, ''B'')] 0)))"
    using no_cue_skipped[THEN conjunct1, rule_format, OF jump_run] by (simp add: jump_run)
  moreover have "poll_loop 2 (feed_send (\<lambda>i. if i = 0 then (10, True) else (50, True)))
       [(1, 4, ''Intro''), (20, 0, ''A''), (30, 1, ''B'')] 1 (1, []) =
     poll_loop 1 (feed_send (\<lambda>i. if i = 0 then (10, True) else (50, True)))
       [(1, 4, ''Intro''), (20, 0, ''A''), (30, 1, ''B'')] 2
       (2, [(''get_song_position'', None, Inr (position_response (50, True))),
            (''fire_scene'', fire_params (20, 0, ''A''),
             Inr (PDict [(''status'', PStr ''success''), (''result'', PDict [])]))])"
    using no_cue_skipped[where idx = 1 and arr = "[(1, 4, ''Intro''), (20, 0, ''A''), (30, 1, ''B'')]"
        and feed = "\<lambda>i. if i = 0 then (10, True) else (50, True)" and n = 1 and k = 1 and calls = "[]",
        THEN conjunct2]
    by (simp del: poll_loop.simps add: numeral_2_eq_2)
  ultimately show ?thesis
    by (simp add: jump_run del: poll_loop.simps)
qed

lemma stop_run:
  "run_arrangement 5 (feed_send (\<lambda>i. if i = 0 then (10, True) else (12, False)))
     [(1, 4, ''Intro''), (17, 0, ''Build'')] 0 =
   (Some Stopped, (2,
     [(''start_playback'', None, Inr (PDict [(''status'', PStr ''success''), (''result'', PDict [])])),
      (''fire_scene'', Some (PDict [(''scene_index'', PInt 4)]), Inr (PDict [(''status'', PStr ''success''), (''result'', PDict [])])),
      (''get_song_position'', None, Inr (position_response (10, True))),
      (''get_song_position'', None, Inr (position_response (12, False)))]))"
  by (simp add: player_eval eval_nat_numeral)

lemma stop_reported: "reports_stopped (''get_song_position'', None, Inr (position_response (12, False)))"
  by (simp add: reports_stopped_def position_response_def)

text \<open>
  A run that is stopped: the second position query reports \<^verbatim>\<open>is_playing\<close> false, it is
  the fourth and last call, and the cue of bar 17 is never fired.
\<close>

theorem stop_ends_run_witness:
  "\<exists>n calls. run_arrangement 5 (feed_send (\<lambda>i. if i = 0 then (10, True) else (12, False)))
       [(1, 4, ''Intro''), (17, 0, ''Build'')] 0 = (Some Stopped, (n, calls)) \<and>
     reports_stopped (calls ! 3) \<and> length calls = 4 \<and> fired_scenes calls = [fire_params (1, 4, ''Intro'')]"
  using stop_ends_run[OF stop_run, of 3] stop_run stop_reported by (simp add: fire_params_def)

text \<open>
  The empty arrangement against the simulated DAW.
\<close>

theorem empty_arrangement_raises_witness:
  "run_arrangement 5 (feed_send (\<lambda>i. (1, True))) [] 0 =
     (Some (Raised IndexError), (0, [(''start_playback'', None, Inr (PDict [(''status'', PStr ''success''), (''result'', PDict [])]))]))"
  using empty_arrangement_raises[of 5 "feed_send (\<lambda>i. (1, True))" 0] by (simp add: feed_send_def)

text \<open>
  The arrangement of the specification's example, given out of order: the position
  reaches bar 17 at the second query.
\<close>

theorem all_cues_fired_in_order_witness:
  "\<exists>n calls. run_arrangement 3 (feed_send (\<lambda>i. (int i + 16, True))) [(17, 0, ''Build''), (1, 4, ''Intro'')] 0 =
       (Some Complete, (n, calls)) \<and>
     fired_scenes calls = [fire_params (1, 4, ''Intro''), fire_params (17, 0, ''Build'')]"
  using all_cues_fired_in_order[of "[(17, 0, ''Build''), (1, 4, ''Intro'')]" "\<lambda>i. (int i + 16, True)" 1 3]
  by auto

text \<open>
  Two cues on the same bar are both fired, so the bars of the fired cues are not
  strictly ascending.
\<close>

theorem equal_bars_not_strictly_ascending:
  "\<exists>n calls. run_arrangement 2 (feed_send (\<lambda>i. (1, True))) [(1, 0, ''a''), (1, 1, ''b'')] 0 =
       (Some Complete, (n, calls)) \<and>
     fired_scenes calls = [fire_params (1, 0, ''a''), fire_params (1, 1, ''b'')] \<and>
     \<not> sorted_wrt (<) (map fst (sort_key fst [(1 :: int, 0 :: int, ''a''), (1, 1, ''b'')]))"
  by (simp add: player_eval eval_nat_numeral fire_params_def)

subsection \<open>From bytes to cues\<close>

lemma poll_bytes:
  "send_command json_loads \<lparr>setup_error = None,
          recvs = [Chunk ''{\"status\": \"success\", \"result\": {\"current_bar\": '',
                   Chunk ''17, \"is_playing\": true}}'']\<rparr> = Inr (position_response (17, True))"
  by (simp add: send_command_def json_eval position_response_def)

lemma ok_bytes:
  "send_command json_loads \<lparr>setup_error = None, recvs = [Chunk ''{\"status\": \"success\", \"result\": {}}'']\<rparr>
     = Inr (PDict [(''status'', PStr ''success''), (''result'', PDict [])])"
  by (simp add: send_command_def json_eval)

text \<open>
  Over the player's \<^verbatim>\<open>send_command\<close> and \<open>json_loads\<close>, the scripted DAW is the simulated
  DAW whose feed is bar 17, playing.
\<close>

lemma scripted_is_feed: "player_sender json_loads scripted_daw = feed_send (\<lambda>i. (17, True))"
  by (intro ext) (simp add: player_sender_def scripted_daw_def feed_send_def poll_bytes ok_bytes)

text \<open>
  The example of the specification, from the bytes on: scene 4 is fired at the start,
  scene 0 after the first position query, and the run is complete.
\<close>

lemma example_run:
  "\<exists>calls. run_arrangement 1 (player_sender json_loads scripted_daw) [(1, 4, ''Intro''), (17, 0, ''Build'')] 0 =
       (Some Complete, (1, calls)) \<and>
     map fst calls = [''start_playback'', ''fire_scene'', ''get_song_position'', ''fire_scene''] \<and>
     fired_scenes calls = [fire_params (1, 4, ''Intro''), fire_params (17, 0, ''Build'')]"
  by (simp add: scripted_is_feed player_eval fire_params_def)

section \<open>Properties of the test harness\<close>

lemma harness_inv_failed [simp]: "harness_inv (record_failed name err t) = harness_inv t"
  by (auto simp: harness_inv_def record_failed_def)

lemma harness_inv_passed [simp]: "harness_inv (record_passed name t) = harness_inv t"
  by (auto simp: harness_inv_def record_passed_def)

lemma results_failed [simp]:
  "test_results (record_failed name err t) = test_results t @ [\<lparr>r_name = name, r_status = ''failed'', r_error = Some err\<rparr>]"
  by (simp add: record_failed_def)

lemma results_passed [simp]:
  "test_results (record_passed name t) = test_results t @ [\<lparr>r_name = name, r_status = ''passed'', r_error = None\<rparr>]"
  by (simp add: record_passed_def)

lemma never_raises_None [simp]: "never_raises None"
  by (simp add: never_raises_def)

lemma never_raises_store [simp]: "never_raises (Some store)"
  by (simp add: never_raises_def store_def)

lemma test_inv [simp]:
  "harness_inv (fst (snd (snd (test send name command params check_func cleanup_func c s)))) = harness_inv (fst s)"
  by (simp add: test_def split: prod.splits sum.splits option.splits)

lemma test_names:
  "never_raises cleanup_func \<Longrightarrow>
     names (fst (snd (snd (test send name command params check_func cleanup_func c s)))) = names (fst s) @ [name]"
  by (auto simp: test_def names_def never_raises_def split: prod.splits sum.splits option.splits)

lemma test_do_inv [simp]: "harness_inv (fst (test_do send name command params check_func s)) = harness_inv (fst s)"
  by (simp add: test_do_def)

lemma test_do_names [simp]: "names (fst (test_do send name command params check_func s)) = names (fst s) @ [name]"
  by (simp add: test_do_def test_names)

text \<open>
  A call of \<^verbatim>\<open>test\<close> whose cleanup function does not raise appends one record, adds one
  to the counter of its status and returns whether that status is \<^verbatim>\<open>passed\<close>.
\<close>

lemma test_effect:
  assumes "never_raises cleanup_func"
    and "test send name command params check_func cleanup_func c s = (ok, c', s')"
  shows "\<exists>r. test_results (fst s') = test_results (fst s) @ [r] \<and> r_name r = name \<and>
           (ok \<longleftrightarrow> r_status r = ''passed'') \<and> (\<not> ok \<longleftrightarrow> r_status r = ''failed'') \<and>
           tests_passed (fst s') = tests_passed (fst s) + (if ok then 1 else 0) \<and>
           tests_failed (fst s') = tests_failed (fst s) + (if ok then 0 else 1)"
  using assms
  by (auto simp: test_def never_raises_def record_failed_def record_passed_def
      split: prod.splits sum.splits option.splits if_splits)

lemma test_store_names [simp]:
  "names (fst (snd (snd (test send name command params check_func (Some store) c s)))) = names (fst s) @ [name]"
  by (simp add: test_names)

lemma session_transport_inv [simp]:
  "harness_inv (fst (test_session_transport send s)) = harness_inv (fst s)"
  by (simp add: test_session_transport_def Let_def)


lemma track_management_inv [simp]:
  "harness_inv (fst (snd (test_track_management send s))) = harness_inv (fst s)"
  by (auto simp: test_track_management_def case_prod_beta Let_def split: sum.splits)


lemma clip_management_inv [simp]:
  "harness_inv (fst (test_clip_management send idx s)) = harness_inv (fst s)"
  by (simp add: test_clip_management_def Let_def)

lemma clip_management_names [simp]:
  "names (fst (test_clip_management send idx s)) = names (fst s) @ clip_names"
  by (simp add: test_clip_management_def Let_def clip_names_def)

lemma device_control_inv [simp]:
  "harness_inv (fst (snd (test_device_control send idx s))) = harness_inv (fst s)"
  by (auto simp: test_device_control_def case_prod_beta Let_def split: sum.splits if_splits option.splits)


lemma scene_management_inv [simp]:
  "harness_inv (fst (snd (test_scene_management send s))) = harness_inv (fst s)"
  by (auto simp: test_scene_management_def case_prod_beta Let_def split: sum.splits)


lemma master_returns_inv [simp]:
  "harness_inv (fst (snd (test_master_returns send idx s))) = harness_inv (fst s)"
  by (auto simp: test_master_returns_def case_prod_beta Let_def split: sum.splits if_splits)


lemma browser_undo_inv [simp]:
  "harness_inv (fst (test_browser_undo send s)) = harness_inv (fst s)"
  by (simp add: test_browser_undo_def Let_def)


lemma delete_test_tracks_inv [simp]:
  "harness_inv (fst (snd (delete_test_tracks send ctc indices s))) = harness_inv (fst s)"
  by (induction indices arbitrary: s) (auto split: sum.splits)


lemma cleanup_tracks_inv [simp]:
  "harness_inv (fst (snd (cleanup_tracks send itc s))) = harness_inv (fst s)"
  by (auto simp: cleanup_tracks_def case_prod_beta split: sum.splits)


lemma run_all_tests_inv [simp]:
  "harness_inv (fst (snd (run_all_tests send s))) = harness_inv (fst s)"
  by (auto simp: run_all_tests_def case_prod_beta split: sum.splits option.splits)

lemma harness_inv_init [simp]: "harness_inv init_tester"
  by (simp add: harness_inv_def init_tester_def)

lemma failed_zero_iff_all_passed:
  "harness_inv t \<Longrightarrow> tests_failed t = 0 \<longleftrightarrow> list_all (\<lambda>r. r_status r = ''passed'') (test_results t)"
proof -
  assume inv: "harness_inv t"
  have "length (filter (\<lambda>r. r_status r = ''failed'') rs) = 0 \<longleftrightarrow> list_all (\<lambda>r. r_status r = ''passed'') rs"
    if "list_all (\<lambda>r. r_status r = ''passed'' \<or> r_status r = ''failed'') rs" for rs :: "test_result list"
    using that by (induction rs) auto
  with inv show ?thesis by (simp add: harness_inv_def)
qed

text \<open>
  C7, as the code has it. The exit code is 0 exactly when \<^verbatim>\<open>run_all_tests\<close> returns
  without an exception and every recorded test has the status \<^verbatim>\<open>passed\<close>; otherwise it
  is 1.
\<close>

theorem exit_code:
  "main send st =
     (if fst (run_all_tests send (init_tester, st)) = None \<and>
         list_all (\<lambda>r. r_status r = ''passed'')
           (test_results (fst (snd (run_all_tests send (init_tester, st)))))
      then 0 else 1)"
proof -
  have inv: "harness_inv (fst (snd (run_all_tests send (init_tester, st))))" by simp
  show ?thesis
    using failed_zero_iff_all_passed[OF inv]
    by (cases "run_all_tests send (init_tester, st)") (auto simp: main_def split: option.splits)
qed

text \<open>
  A DAW whose responses carry \<^verbatim>\<open>"result": null\<close>: the Connection test passes, then
  \<^verbatim>\<open>initial_info.get('result', {}).get('track_count', 0)\<close> raises \<^verbatim>\<open>AttributeError\<close>.
  Every test that ran has passed and the exit code is 1.
\<close>

theorem crash_after_passed_test:
  "run_all_tests (reply_all null_result) (init_tester, ()) =
     (Some AttributeError,
      (\<lparr>tests_passed = 1, tests_failed = 0,
        test_results = [\<lparr>r_name = ''Connection'', r_status = ''passed'', r_error = None\<rparr>]\<rparr>, ())) \<and>
   main (reply_all null_result) () = 1"
  by (simp add: main_def run_all_tests_def test_def reply_all_def null_result_def init_tester_def
      record_passed_def py_get2_def)

lemma check_in_full:
  "k \<in> {''tempo'', ''current_time'', ''index'', ''name'', ''input_routing_type'', ''new_index'',
         ''parameters'', ''scenes'', ''returns'', ''categories'', ''items''} \<Longrightarrow>
   check_in k full_result = Inr True"
  by (auto simp: check_in_def full_result_def)

lemma check_eq_full:
  "check_eq ''note_count'' (PInt 0) 3 full_result = Inr True"
  "check_eq ''looping'' PNone 1 full_result = Inr True"
  "check_eq ''duplicated'' PNone 1 full_result = Inr True"
  by (simp_all add: check_eq_def full_result_def py_get2_def py_eq_num_def)

lemma test_full:
  "(case check_func of None \<Rightarrow> True | Some chk \<Rightarrow> chk full_result = Inr True) \<Longrightarrow>
     test (reply_all full_result) name command params check_func cleanup_func c s =
       (case cleanup_func of
          None \<Rightarrow> (True, c, (record_passed name (fst s), ()))
        | Some cleanup \<Rightarrow>
            (case cleanup full_result c of
               Inl e \<Rightarrow> (False, c, (record_failed name (PStr (exc_str e)) (record_passed name (fst s)), ()))
             | Inr c' \<Rightarrow> (True, c', (record_passed name (fst s), ()))))"
  by (auto simp: test_def reply_all_def full_result_def split: option.splits sum.splits)

lemma test_do_full:
  "(case check_func of None \<Rightarrow> True | Some chk \<Rightarrow> chk full_result = Inr True) \<Longrightarrow>
     test_do (reply_all full_result) name command params check_func s = (record_passed name (fst s), ())"
  by (simp add: test_do_def test_full)

lemma stored_index_full: "stored_index full_result k d = py_get2 full_result ''result'' (PDict []) k (PInt 0)"
  by (simp add: stored_index_def full_result_def)

lemma py_get2_full:
  "py_get2 full_result ''result'' (PDict []) ''track_count'' (PInt 0) = Inr (PInt 2)"
  "py_get2 full_result ''result'' (PDict []) ''index'' (PInt 0) = Inr (PInt 0)"
  "py_get2 full_result ''result'' (PDict []) ''new_index'' (PInt 0) = Inr (PInt 1)"
  "py_get2 full_result ''result'' (PDict []) ''devices'' (PList []) = Inr (PList [])"
  "py_get2 full_result ''result'' (PDict []) ''return_count'' (PInt 0) = Inr (PInt 0)"
  by (simp_all add: py_get2_def full_result_def)

lemma run_full_names:
  "fst (run_all_tests (reply_all full_result) (init_tester, ())) = None \<and>
   tests_failed (fst (snd (run_all_tests (reply_all full_result) (init_tester, ())))) = 0 \<and>
   tests_passed (fst (snd (run_all_tests (reply_all full_result) (init_tester, ())))) = 44"
  by (simp add: run_all_tests_def test_full test_do_full check_in_full check_eq_full
      test_session_transport_def test_track_management_def test_clip_management_def
      test_device_control_def test_scene_management_def test_master_returns_def
      test_browser_undo_def cleanup_tracks_def store_def stored_index_full
      reply_all_def[of full_result] Let_def record_passed_def init_tester_def py_get2_full
      py_add_int_def py_gt_int_def py_sub_def py_range_def)



lemma test_do_reply_all_snd: "snd (test_do (reply_all r) name command params check_func s) = ()"
  by simp

lemma py_get2_empty:
  "py_get2 empty_result ''result'' (PDict []) k d = Inr d"
  by (simp add: py_get2_def empty_result_def)



lemma test_empty:
  "test (reply_all empty_result) name command params check_func cleanup_func c s =
     (case (case check_func of None \<Rightarrow> Inr True | Some chk \<Rightarrow> chk empty_result) of
        Inl e \<Rightarrow> (False, c, (record_failed name (PStr (exc_str e)) (fst s), ()))
      | Inr ok \<Rightarrow>
          if \<not> ok then (False, c, (record_failed name (PStr ''Check function failed'') (fst s), ()))
          else
            (case cleanup_func of
               None \<Rightarrow> (True, c, (record_passed name (fst s), ()))
             | Some cleanup \<Rightarrow>
                 (case cleanup empty_result c of
                    Inl e \<Rightarrow> (False, c, (record_failed name (PStr (exc_str e)) (record_passed name (fst s)), ()))
                  | Inr c' \<Rightarrow> (True, c', (record_passed name (fst s), ())))))"
  by (auto simp: test_def reply_all_def empty_result_def split: option.splits sum.splits)

lemma check_empty:
  "check_in k empty_result = Inr False"
  "check_eq k d 3 empty_result = Inr (py_eq_num d 3)"
  "check_eq k d 1 empty_result = Inr (py_eq_num d 1)"
  by (simp_all add: check_in_def check_eq_def py_get2_def empty_result_def)

lemma run_empty_failed:
  "tests_failed (fst (snd (run_all_tests (reply_all empty_result) (init_tester, ())))) = 18"
  by (simp add: run_all_tests_def test_empty test_do_def check_empty py_eq_num_def
      test_session_transport_def test_track_management_def test_clip_management_def
      test_device_control_def test_scene_management_def test_master_returns_def
      test_browser_undo_def cleanup_tracks_def stored_index_def
      reply_all_def[of empty_result] Let_def py_get2_empty record_passed_def record_failed_def init_tester_def
      py_add_int_def py_gt_int_def py_sub_def py_range_def)




text \<open>
  A run in which all 44 tests pass, and one with failures.
\<close>

theorem exit_code_witness:
  "main (reply_all full_result) () = 0 \<and> main (reply_all empty_result) () = 1"
  using exit_code[of "reply_all full_result" "()"] exit_code[of "reply_all empty_result" "()"]
    run_full_names run_empty_failed
    failed_zero_iff_all_passed[of "fst (snd (run_all_tests (reply_all full_result) (init_tester, ())))"]
    failed_zero_iff_all_passed[of "fst (snd (run_all_tests (reply_all empty_result) (init_tester, ())))"]
  by simp

end
